theory Spec2Isabelle
  imports Complex_Main "HOL-Library.Stream"
begin

section \<open>Number model\<close>

text \<open>
  The script computes with binary64 floats. A float result is modelled by the exact real
  value of the expression the code evaluates: the value the float stands for, up to the
  rounding of its operations. Where the control flow or a claim turns on the rounding
  itself (the day count taken from a product, the order of two prices, the mean of equal
  numbers), the operation is modelled with its binary64 rounding, \<open>b64\<close> below.
  Infinities are no values of the model: an operation whose result would be infinite is
  outside it, except where the code raises on it. The reals have one zero, so the float
  \<open>-0.0\<close> is no value of the model either. The one non-numeric value the source
  produces from finite inputs is numpy's \<open>nan\<close> (the square root of a negative number,
  \<open>0.0 / 0\<close>); it is the value \<open>NaN\<close>.
\<close>

datatype np_float = Num real | NaN

text \<open>Comparisons of floats: every comparison with \<open>nan\<close> is false.\<close>

fun np_less :: "np_float \<Rightarrow> np_float \<Rightarrow> bool" where
  "np_less (Num a) (Num b) = (a < b)"
| "np_less _ _ = False"

fun np_le :: "np_float \<Rightarrow> np_float \<Rightarrow> bool" where
  "np_le (Num a) (Num b) = (a \<le> b)"
| "np_le _ _ = False"

fun np_nonneg :: "np_float \<Rightarrow> bool" where
  "np_nonneg (Num a) = (0 \<le> a)"
| "np_nonneg NaN = False"

text \<open>\<^verbatim>\<open>np.sqrt\<close>: \<open>nan\<close> (and a warning) below zero, never an exception.\<close>

definition np_sqrt :: "real \<Rightarrow> np_float" where
  "np_sqrt x = (if x < 0 then NaN else Num (sqrt x))"

text \<open>\<^verbatim>\<open>int(x)\<close> on a float truncates towards zero.\<close>

definition py_int :: "real \<Rightarrow> int" where
  "py_int x = (if 0 \<le> x then \<lfloor>x\<rfloor> else \<lceil>x\<rceil>)"

subsection \<open>Binary64 rounding\<close>

text \<open>
  Round to nearest, ties to even, onto the binary64 numbers: 53 significant bits, the
  exponent of the leading bit at least \<open>-1022\<close> (below that the numbers are subnormal and
  evenly spaced). \<open>ulp x\<close> is the spacing of the binary64 numbers around \<open>x\<close>. The largest
  finite binary64 number is just below \<open>2 ^ 1024\<close>; a rounded magnitude that reaches
  \<open>2 ^ 1024\<close> is an overflow.
\<close>

definition round_half_even :: "real \<Rightarrow> int" where
  "round_half_even x =
     (let f = \<lfloor>x\<rfloor>; r = x - of_int f
      in if r < 1 / 2 then f else if 1 / 2 < r then f + 1 else if even f then f else f + 1)"

definition binade :: "real \<Rightarrow> int" where
  "binade x = (if x = 0 then - 1022 else max (- 1022) \<lfloor>log 2 \<bar>x\<bar>\<rfloor>)"

definition ulp :: "real \<Rightarrow> real" where
  "ulp x = 2 powr (of_int (binade x) - 52)"

definition b64 :: "real \<Rightarrow> real" where
  "b64 x = of_int (round_half_even (x / ulp x)) * ulp x"

text \<open>The exceptions the functions can raise: numpy's and Python's own.\<close>

datatype error = ValueError | ZeroDivisionError | OverflowError

section \<open>The day count\<close>

text \<open>
  \<^verbatim>\<open>n_days = int(time * 252)\<close>, the same line in three functions. The product is a
  float: the exact product rounded. \<^verbatim>\<open>int\<close> of an infinite float raises
  \<^verbatim>\<open>OverflowError\<close>.
\<close>

definition day_count :: "real \<Rightarrow> error + int" where
  "day_count time =
     (let p = b64 (time * 252)
      in if 2 ^ 1024 \<le> \<bar>p\<bar> then Inl OverflowError else Inr (py_int p))"

section \<open>The randomness source\<close>

text \<open>
  \<^verbatim>\<open>np.random\<close> is a global generator. Its state is the stream of standard normal
  variates it has yet to hand out; a call takes as many as it needs from the front and
  leaves the rest. \<^verbatim>\<open>np.random.normal(loc, scale, size)\<close> returns \<open>loc + scale * z\<close> for
  each variate \<open>z\<close> it takes. Before it draws anything it raises \<^verbatim>\<open>ValueError\<close> for a
  negative \<open>scale\<close>, for a negative dimension, and for an array of 8-byte floats whose
  size in bytes, dimensions of 0 left out of the product, exceeds \<open>2 ^ 63 - 1\<close>. Whether
  an array below that limit fits the memory of the machine is outside the model.
\<close>

type_synonym rng = "real stream"

definition array_too_big :: "int list \<Rightarrow> bool" where
  "array_too_big dims = (2 ^ 63 - 1 < 8 * prod_list (filter (\<lambda>d. d \<noteq> 0) dims))"

definition random_normal :: "real \<Rightarrow> real \<Rightarrow> int \<Rightarrow> rng \<Rightarrow> error + (real list \<times> rng)" where
  "random_normal loc scale n g =
     (if scale < 0 \<or> n < 0 \<or> array_too_big [n] then Inl ValueError
      else Inr (map (\<lambda>z. loc + scale * z) (stake (nat n) g), sdrop (nat n) g))"

text \<open>
  A two-dimensional array keeps its shape beside its rows: an array of shape \<open>(0, m)\<close>
  has no row and still \<open>m\<close> columns. The generator fills it row by row.
\<close>

record ndarray2 =
  n_rows :: nat
  n_cols :: nat
  rows :: "real list list"

fun fill_rows :: "nat \<Rightarrow> nat \<Rightarrow> (real \<Rightarrow> real) \<Rightarrow> rng \<Rightarrow> real list list" where
  "fill_rows 0 m f g = []"
| "fill_rows (Suc n) m f g = map f (stake m g) # fill_rows n m f (sdrop m g)"

definition random_normal2 :: "real \<Rightarrow> real \<Rightarrow> int \<times> int \<Rightarrow> rng \<Rightarrow> error + (ndarray2 \<times> rng)" where
  "random_normal2 loc scale shp g =
     (case shp of (n, m) \<Rightarrow>
        if scale < 0 \<or> n < 0 \<or> m < 0 \<or> array_too_big [n, m] then Inl ValueError
        else Inr (\<lparr>n_rows = nat n, n_cols = nat m,
                    rows = fill_rows (nat n) (nat m) (\<lambda>z. loc + scale * z) g\<rparr>,
                  sdrop (nat n * nat m) g))"

section \<open>straddle\_price\<close>

text \<open>
  \<^verbatim>\<open>return (2 / (2 * np.pi) ** 0.5) * an_vol * np.sqrt(time)\<close>. A product with
  \<open>nan\<close> is \<open>nan\<close>.
\<close>

definition straddle_price :: "real \<Rightarrow> real \<Rightarrow> np_float" where
  "straddle_price an_vol time =
     (case np_sqrt time of
        NaN \<Rightarrow> NaN
      | Num r \<Rightarrow> Num ((2 / (2 * pi) powr (1 / 2)) * an_vol * r))"

text \<open>
  The same line with the rounding of each of its operations, for arguments that are
  floats. \<^verbatim>\<open>np.pi\<close> is the binary64 number nearest to \<open>pi\<close>. The products, the
  quotient and \<^verbatim>\<open>np.sqrt\<close> are IEEE operations: the exact result, rounded.
  \<^verbatim>\<open>** 0.5\<close> is the float power of the C library, taken as correctly rounded too, as
  it is at this argument. \<open>c64\<close> is the coefficient \<^verbatim>\<open>2 / (2 * np.pi) ** 0.5\<close>, the
  first factor of the line.
\<close>

definition c64 :: real where
  "c64 = b64 (2 / b64 (b64 (2 * b64 pi) powr (1 / 2)))"

definition straddle_price_binary64 :: "real \<Rightarrow> real \<Rightarrow> np_float" where
  "straddle_price_binary64 an_vol time =
     (case np_sqrt time of
        NaN \<Rightarrow> NaN
      | Num r \<Rightarrow> Num (b64 (b64 (c64 * an_vol) * b64 r)))"

section \<open>straddle\_pricer\_mc\<close>

text \<open>\<^verbatim>\<open>np.abs(np.prod(1 + returns) - 1)\<close>; the product of no factor is 1.\<close>

definition path_straddle_return :: "real list \<Rightarrow> real" where
  "path_straddle_return returns = \<bar>prod_list (map (\<lambda>r. 1 + r) returns) - 1\<bar>"

text \<open>
  The loop \<^verbatim>\<open>for _ in range(mc_paths)\<close>, by the number of iterations left: each draws
  one path and adds its straddle return to \<open>result_sum\<close>. An exception of the draw
  leaves the loop.
\<close>

fun mc_loop :: "nat \<Rightarrow> real \<Rightarrow> int \<Rightarrow> real \<Rightarrow> rng \<Rightarrow> error + (real \<times> rng)" where
  "mc_loop 0 daily_vol n_days result_sum g = Inr (result_sum, g)"
| "mc_loop (Suc k) daily_vol n_days result_sum g =
     (case random_normal 0 daily_vol n_days g of
        Inl e \<Rightarrow> Inl e
      | Inr (returns, g') \<Rightarrow>
          mc_loop k daily_vol n_days (result_sum + path_straddle_return returns) g')"

text \<open>
  \<open>range\<close> of a negative count is empty. With no iteration \<open>result_sum\<close> is still the
  integer 0, so a zero \<open>mc_paths\<close> divides the integer 0 by the integer 0, which raises
  \<^verbatim>\<open>ZeroDivisionError\<close>. The function returns the estimate; the model returns the
  generator after the call beside it.
\<close>

definition straddle_pricer_mc :: "real \<Rightarrow> real \<Rightarrow> int \<Rightarrow> rng \<Rightarrow> error + (real \<times> rng)" where
  "straddle_pricer_mc an_vol time mc_paths g =
     (let daily_vol = an_vol / sqrt 252
      in case day_count time of
           Inl e \<Rightarrow> Inl e
         | Inr n_days \<Rightarrow>
             (case mc_loop (nat mc_paths) daily_vol n_days 0 g of
                Inl e \<Rightarrow> Inl e
              | Inr (result_sum, g') \<Rightarrow>
                  if mc_paths = 0 then Inl ZeroDivisionError
                  else Inr (result_sum / real_of_int mc_paths, g')))"

section \<open>five\_prices\<close>

text \<open>
  The vectorised operations of one batch:
  \<^verbatim>\<open>(np.abs((data + 1).prod(axis=0) - 1).sum()) / mc_paths\<close>. The product along
  axis 0 has one entry per column. The sum is a float, and a float divided by the
  integer 0 is no exception: the sum over no column is 0.0, and \<open>0.0 / 0\<close> is \<open>nan\<close>.
\<close>

definition add_scalar :: "ndarray2 \<Rightarrow> real \<Rightarrow> ndarray2" where
  "add_scalar a c = a\<lparr>rows := map (map (\<lambda>x. x + c)) (rows a)\<rparr>"

definition column :: "ndarray2 \<Rightarrow> nat \<Rightarrow> real list" where
  "column a j = map (\<lambda>row. row ! j) (rows a)"

definition prod_axis0 :: "ndarray2 \<Rightarrow> real list" where
  "prod_axis0 a = map (\<lambda>j. prod_list (column a j)) [0..<n_cols a]"

definition batch_price :: "ndarray2 \<Rightarrow> int \<Rightarrow> np_float" where
  "batch_price data mc_paths =
     (let total = sum_list (map (\<lambda>p. \<bar>p - 1\<bar>) (prod_axis0 (add_scalar data 1)))
      in if mc_paths = 0 then NaN else Num (total / real_of_int mc_paths))"

text \<open>The loop \<^verbatim>\<open>for _ in range(5)\<close>, by the number of iterations left.\<close>

fun five_loop :: "nat \<Rightarrow> real \<Rightarrow> int \<Rightarrow> int \<Rightarrow> np_float list \<Rightarrow> rng \<Rightarrow> error + (np_float list \<times> rng)" where
  "five_loop 0 daily_vol n_days mc_paths results g = Inr (results, g)"
| "five_loop (Suc k) daily_vol n_days mc_paths results g =
     (case random_normal2 0 daily_vol (n_days, mc_paths) g of
        Inl e \<Rightarrow> Inl e
      | Inr (data, g') \<Rightarrow>
          five_loop k daily_vol n_days mc_paths (results @ [batch_price data mc_paths]) g')"

definition five_prices :: "real \<Rightarrow> real \<Rightarrow> int \<Rightarrow> rng \<Rightarrow> error + (np_float list \<times> rng)" where
  "five_prices an_vol time mc_paths g =
     (let daily_vol = an_vol / sqrt 252
      in case day_count time of
           Inl e \<Rightarrow> Inl e
         | Inr n_days \<Rightarrow> five_loop 5 daily_vol n_days mc_paths [] g)"

section \<open>simulate\_asset\_path\<close>

text \<open>The data frame has the columns \<open>return\<close> and \<open>price\<close>.\<close>

record dataframe =
  df_return :: "real list"
  df_price :: "real list"

text \<open>\<^verbatim>\<open>cumprod\<close>: the running product, the first entry being the first factor.\<close>

fun cumprod_from :: "real \<Rightarrow> real list \<Rightarrow> real list" where
  "cumprod_from acc [] = []"
| "cumprod_from acc (x # xs) = (acc * x) # cumprod_from (acc * x) xs"

definition cumprod :: "real list \<Rightarrow> real list" where
  "cumprod xs = cumprod_from 1 xs"

definition simulate_asset_path :: "real \<Rightarrow> real \<Rightarrow> rng \<Rightarrow> error + ((dataframe \<times> real) \<times> rng)" where
  "simulate_asset_path an_vol time g =
     (let daily_vol = an_vol / sqrt 252
      in case day_count time of
           Inl e \<Rightarrow> Inl e
         | Inr n_days \<Rightarrow>
             (case random_normal 0 daily_vol n_days g of
                Inl e \<Rightarrow> Inl e
              | Inr (returns, g') \<Rightarrow>
                  let straddle_return = path_straddle_return returns;
                      ret = map (\<lambda>r. r + 1) returns;
                      df = \<lparr>df_return = ret, df_price = cumprod ret\<rparr>
                  in Inr ((df, straddle_return), g')))"

text \<open>
  Reading the first and the last entry of a series (\<^verbatim>\<open>.iloc[0]\<close>, \<^verbatim>\<open>.iloc[-1]\<close>):
  an empty series has neither.
\<close>

definition first_value :: "real list \<Rightarrow> real option" where
  "first_value xs = (case xs of [] \<Rightarrow> None | x # _ \<Rightarrow> Some x)"

definition last_value :: "real list \<Rightarrow> real option" where
  "last_value xs = (if xs = [] then None else Some (last xs))"

section \<open>The script: the average of a fixed return\<close>







section \<open>Realisations of the draws\<close>

text \<open>
  The daily returns of the \<open>i\<close>-th call of \<^verbatim>\<open>np.random.normal(0, daily_vol, n_days)\<close>
  in a run that starts with the generator \<open>g\<close>: the call takes the variates
  \<open>i * n_days\<close>, ..., \<open>i * n_days + n_days - 1\<close> of the stream.
\<close>

definition trial_returns :: "real \<Rightarrow> nat \<Rightarrow> rng \<Rightarrow> nat \<Rightarrow> real list" where
  "trial_returns daily_vol n_days g i =
     map (\<lambda>z. 0 + daily_vol * z) (stake n_days (sdrop (i * n_days) g))"

text \<open>
  The draws of column \<open>j\<close> of the \<open>b\<close>-th matrix of
  \<^verbatim>\<open>np.random.normal(0, daily_vol, (n_days, mc_paths))\<close> in a run that starts with the
  generator \<open>g\<close>: matrix \<open>b\<close> starts at variate \<open>b * (n_days * mc_paths)\<close>, and its entry
  in row \<open>i\<close> and column \<open>j\<close> is variate \<open>i * mc_paths + j\<close> from there.
\<close>

definition batch_column :: "real \<Rightarrow> nat \<Rightarrow> nat \<Rightarrow> rng \<Rightarrow> nat \<Rightarrow> nat \<Rightarrow> real list" where
  "batch_column daily_vol n_days mc_paths g b j =
     map (\<lambda>i. 0 + daily_vol * (g !! (b * (n_days * mc_paths) + i * mc_paths + j))) [0..<n_days]"

section \<open>Binary64 rounding: the facts used\<close>

lemma ulp_pos: "0 < ulp x"
  by (simp add: ulp_def)

lemma round_half_even_of_int: "round_half_even (of_int m) = m"
  by (simp add: round_half_even_def)

lemma round_half_even_bounds:
  "of_int (round_half_even x) \<le> x + 1 / 2" "x - 1 / 2 \<le> of_int (round_half_even x)"
  unfolding round_half_even_def Let_def by (auto; linarith)+

lemma round_half_even_mono:
  assumes "x \<le> y" shows "round_half_even x \<le> round_half_even y"
proof (cases "\<lfloor>x\<rfloor> = \<lfloor>y\<rfloor>")
  case True
  with assms show ?thesis
    unfolding round_half_even_def Let_def by auto
next
  case False
  with assms have lt: "\<lfloor>x\<rfloor> < \<lfloor>y\<rfloor>"
    by (simp add: floor_mono order.not_eq_order_implies_strict)
  have "round_half_even x \<le> \<lfloor>x\<rfloor> + 1"
    unfolding round_half_even_def Let_def by auto
  moreover have "\<lfloor>y\<rfloor> \<le> round_half_even y"
    unfolding round_half_even_def Let_def by auto
  ultimately show ?thesis using lt by linarith
qed

lemma round_half_even_nonneg: "0 \<le> x \<Longrightarrow> 0 \<le> round_half_even x"
  using round_half_even_mono [of 0 x] round_half_even_of_int [of 0] by simp

lemma b64_zero: "b64 0 = 0"
  by (simp add: b64_def round_half_even_def)

lemma b64_nonneg: "0 \<le> x \<Longrightarrow> 0 \<le> b64 x"
  unfolding b64_def using ulp_pos [of x] by (simp add: round_half_even_nonneg)

lemma binade_eqI:
  assumes "2 powr (of_int e) \<le> \<bar>x\<bar>" and "\<bar>x\<bar> < 2 powr (of_int e + 1)" and "- 1022 \<le> e"
  shows "binade x = e"
proof -
  have pos: "0 < \<bar>x\<bar>" using assms(1) by (smt (verit) powr_gt_zero)
  then have "\<lfloor>log 2 \<bar>x\<bar>\<rfloor> = e"
    using assms(1,2) by (simp add: floor_log_eq_powr_iff)
  with assms(3) pos show ?thesis by (simp add: binade_def)
qed

lemma binade_subnormal:
  assumes "\<bar>x\<bar> < 2 powr (- 1022)"
  shows "binade x = - 1022"
proof (cases "x = 0")
  case True
  then show ?thesis by (simp add: binade_def)
next
  case False
  then have pos: "0 < \<bar>x\<bar>" by simp
  have "log 2 \<bar>x\<bar> < - 1022"
    using assms pos by (simp add: log_less_iff)
  then have "\<lfloor>log 2 \<bar>x\<bar>\<rfloor> < - 1022" by linarith
  then show ?thesis using False by (simp add: binade_def)
qed

lemma two_powr_diff_nat: "(2::real) powr (52 - real k) = 2 ^ 52 / 2 ^ k"
  by (simp add: powr_diff powr_realpow)

lemma two_powr_Suc: "(2::real) powr (a + 1) = 2 * 2 powr a"
  by (simp add: powr_add)

lemma two_powr_neg_nat: "(2::real) powr (- real k) = 1 / 2 ^ k"
  by (simp add: powr_minus powr_realpow inverse_eq_divide)

text \<open>Rounding a number of magnitude below \<open>2 ^ 53\<close>: scale by \<open>2 ^ k\<close> into \<open>[2 ^ 52, 2 ^ 53)\<close>.\<close>

lemma b64_eval:
  assumes "2 ^ 52 \<le> \<bar>x\<bar> * 2 ^ k" and "\<bar>x\<bar> * 2 ^ k < 2 ^ 53" and "k \<le> 1074"
  shows "b64 x = of_int (round_half_even (x * 2 ^ k)) / 2 ^ k"
proof -
  have e: "real_of_int (52 - int k) = 52 - real k" by simp
  have p52: "(2::real) powr (of_int (52 - int k)) = 2 ^ 52 / 2 ^ k"
    unfolding e two_powr_diff_nat ..
  have p53: "(2::real) powr (of_int (52 - int k) + 1) = 2 ^ 53 / 2 ^ k"
    unfolding e two_powr_Suc two_powr_diff_nat by simp
  have "2 ^ 52 / 2 ^ k \<le> \<bar>x\<bar>"
    using assms(1) by (simp add: pos_divide_le_eq)
  then have lo: "2 powr (of_int (52 - int k)) \<le> \<bar>x\<bar>"
    unfolding p52 .
  have "\<bar>x\<bar> < 2 ^ 53 / 2 ^ k"
    using assms(2) by (simp add: pos_less_divide_eq)
  then have hi: "\<bar>x\<bar> < 2 powr (of_int (52 - int k) + 1)"
    unfolding p53 .
  have "binade x = 52 - int k"
    using lo hi assms(3) by (intro binade_eqI) simp_all
  then have "ulp x = 1 / 2 ^ k"
    by (simp add: ulp_def two_powr_neg_nat)
  then show ?thesis by (simp add: b64_def)
qed

lemma round_half_even_small: "\<bar>y\<bar> < 1 / 2 \<Longrightarrow> round_half_even y = 0"
proof -
  assume y: "\<bar>y\<bar> < 1 / 2"
  show ?thesis
  proof (cases "0 \<le> y")
    case True
    with y have "\<lfloor>y\<rfloor> = 0" by (simp add: floor_eq_iff)
    with y True show ?thesis by (simp add: round_half_even_def)
  next
    case False
    with y have "\<lfloor>y\<rfloor> = - 1" by (simp add: floor_eq_iff)
    with y False show ?thesis by (simp add: round_half_even_def)
  qed
qed

text \<open>Underflow: below half the smallest subnormal the result is zero.\<close>

lemma b64_underflow:
  assumes "\<bar>x\<bar> < 2 powr (- 1075)"
  shows "b64 x = 0"
proof -
  have "(2::real) powr (- 1075) < 2 powr (- 1022)" by simp
  with assms have "\<bar>x\<bar> < 2 powr (- 1022)" by linarith
  then have "binade x = - 1022" by (rule binade_subnormal)
  then have u: "ulp x = 2 powr (- 1074)" by (simp add: ulp_def)
  have "(2::real) powr (- 1074) = 2 * 2 powr (- 1075)"
    using two_powr_Suc [of "- 1075"] by simp
  then have "\<bar>x\<bar> / 2 powr (- 1074) < 1 / 2"
    using assms by (simp add: field_simps)
  then have "\<bar>x / ulp x\<bar> < 1 / 2" by (simp add: u)
  then show ?thesis by (simp add: b64_def round_half_even_small)
qed

lemma binade_upper: "\<bar>x\<bar> < 2 powr (of_int (binade x) + 1)"
proof (cases "x = 0")
  case True
  then show ?thesis by simp
next
  case False
  then have pos: "0 < \<bar>x\<bar>" by simp
  have "log 2 \<bar>x\<bar> < of_int \<lfloor>log 2 \<bar>x\<bar>\<rfloor> + 1" by linarith
  also have "\<dots> \<le> of_int (binade x) + 1" using False by (simp add: binade_def)
  finally have "log 2 \<bar>x\<bar> < of_int (binade x) + 1" .
  then show ?thesis using pos by (simp add: log_less_iff)
qed

lemma binade_lower: "- 1022 < binade x \<Longrightarrow> 2 powr (of_int (binade x)) \<le> \<bar>x\<bar>"
proof -
  assume b: "- 1022 < binade x"
  then have nz: "x \<noteq> 0" by (auto simp add: binade_def)
  with b have "binade x = \<lfloor>log 2 \<bar>x\<bar>\<rfloor>" by (simp add: binade_def max_def split: if_splits)
  then have "of_int (binade x) \<le> log 2 \<bar>x\<bar>" by simp
  then show ?thesis using nz by (simp add: le_log_iff)
qed

lemma binade_mono: "0 < x \<Longrightarrow> x \<le> y \<Longrightarrow> binade x \<le> binade y"
proof -
  assume x: "0 < x" and xy: "x \<le> y"
  then have "log 2 \<bar>x\<bar> \<le> log 2 \<bar>y\<bar>" by simp
  then have "\<lfloor>log 2 \<bar>x\<bar>\<rfloor> \<le> \<lfloor>log 2 \<bar>y\<bar>\<rfloor>" by (rule floor_mono)
  with x xy show ?thesis by (simp add: binade_def)
qed

lemma ulp_times_2_53: "2 ^ 53 * ulp x = 2 powr (of_int (binade x) + 1)"
proof -
  have "(2::real) ^ 53 = 2 powr 53" by simp
  then have "2 ^ 53 * ulp x = 2 powr 53 * 2 powr (of_int (binade x) - 52)"
    by (simp only: ulp_def)
  also have "\<dots> = 2 powr (53 + (of_int (binade x) - 52))" by (simp only: powr_add)
  finally show ?thesis by (simp add: algebra_simps)
qed

lemma ulp_times_2_52: "2 ^ 52 * ulp x = 2 powr (of_int (binade x))"
proof -
  have "(2::real) ^ 52 = 2 powr 52" by simp
  then have "2 ^ 52 * ulp x = 2 powr 52 * 2 powr (of_int (binade x) - 52)"
    by (simp only: ulp_def)
  also have "\<dots> = 2 powr (52 + (of_int (binade x) - 52))" by (simp only: powr_add)
  finally show ?thesis by simp
qed

text \<open>A non-negative number rounds to at most the top of its binade.\<close>

lemma b64_le_binade_top:
  assumes "0 \<le> x" shows "b64 x \<le> 2 powr (of_int (binade x) + 1)"
proof -
  have "x < 2 ^ 53 * ulp x"
    unfolding ulp_times_2_53 using binade_upper [of x] assms by simp
  then have "x / ulp x \<le> 2 ^ 53"
    using ulp_pos [of x] by (simp add: pos_divide_le_eq)
  then have "round_half_even (x / ulp x) \<le> round_half_even (of_int (2 ^ 53))"
    using round_half_even_mono [of "x / ulp x" "of_int (2 ^ 53)"] by simp
  then have "round_half_even (x / ulp x) \<le> 2 ^ 53"
    by (simp only: round_half_even_of_int)
  then have "real_of_int (round_half_even (x / ulp x)) \<le> 2 ^ 53"
    by (metis of_int_le_iff of_int_numeral of_int_power)
  then have "b64 x \<le> 2 ^ 53 * ulp x"
    unfolding b64_def using ulp_pos [of x] by (simp add: mult_right_mono)
  then show ?thesis by (simp only: ulp_times_2_53)
qed

text \<open>A number above the subnormal range rounds to at least the bottom of its binade.\<close>

lemma b64_ge_binade_bottom:
  assumes "0 \<le> y" and "- 1022 < binade y"
  shows "2 powr (of_int (binade y)) \<le> b64 y"
proof -
  have "2 ^ 52 * ulp y \<le> y"
    unfolding ulp_times_2_52 using binade_lower [OF assms(2)] assms(1) by simp
  then have "2 ^ 52 \<le> y / ulp y"
    using ulp_pos [of y] by (simp add: pos_le_divide_eq)
  then have "round_half_even (of_int (2 ^ 52)) \<le> round_half_even (y / ulp y)"
    using round_half_even_mono [of "of_int (2 ^ 52)" "y / ulp y"] by simp
  then have "2 ^ 52 \<le> round_half_even (y / ulp y)"
    by (simp only: round_half_even_of_int)
  then have "2 ^ 52 \<le> real_of_int (round_half_even (y / ulp y))"
    by (metis of_int_le_iff of_int_numeral of_int_power)
  then have "2 ^ 52 * ulp y \<le> b64 y"
    unfolding b64_def using ulp_pos [of y] by (simp add: mult_right_mono)
  then show ?thesis by (simp only: ulp_times_2_52)
qed

text \<open>Rounding keeps the order of non-negative numbers.\<close>

lemma b64_mono:
  assumes "0 \<le> x" and "x \<le> y"
  shows "b64 x \<le> b64 y"
proof (cases "x = 0")
  case True
  with assms b64_nonneg [of y] show ?thesis by (simp add: b64_zero)
next
  case False
  with assms have x: "0 < x" and y: "0 \<le> y" by simp_all
  have le: "binade x \<le> binade y" using x assms(2) by (rule binade_mono)
  show ?thesis
  proof (cases "binade x = binade y")
    case True
    then have u: "ulp x = ulp y" by (simp add: ulp_def)
    have "x / ulp y \<le> y / ulp y"
      using assms(2) ulp_pos [of y] by (simp add: divide_right_mono)
    then have "round_half_even (x / ulp y) \<le> round_half_even (y / ulp y)"
      by (rule round_half_even_mono)
    then show ?thesis
      unfolding b64_def u using ulp_pos [of y] by (simp add: mult_right_mono)
  next
    case False
    with le have lt: "binade x < binade y" by simp
    have "- 1022 \<le> binade x" by (simp add: binade_def)
    with lt have "- 1022 < binade y" by simp
    then have bottom: "2 powr (of_int (binade y)) \<le> b64 y"
      using y by (intro b64_ge_binade_bottom)
    have top: "b64 x \<le> 2 powr (of_int (binade x) + 1)"
      using assms(1) by (rule b64_le_binade_top)
    have "of_int (binade x) + (1::real) \<le> of_int (binade y)" using lt by linarith
    then have "(2::real) powr (of_int (binade x) + 1) \<le> 2 powr (of_int (binade y))"
      by simp
    with top bottom show ?thesis by linarith
  qed
qed

text \<open>A power of two in the normal range is a binary64 number.\<close>

lemma b64_power_of_two: "k \<le> 1074 \<Longrightarrow> b64 (2 ^ 52 / 2 ^ k) = 2 ^ 52 / 2 ^ k"
  using b64_eval [of "2 ^ 52 / 2 ^ k" k] by (simp add: round_half_even_def)


text \<open>Rounding a number of magnitude at least \<open>2 ^ 52\<close>: scale down by \<open>2 ^ k\<close>.\<close>

lemma two_powr_add_nat: "(2::real) powr (52 + real k) = 2 ^ 52 * 2 ^ k"
  by (simp add: powr_add powr_realpow)

lemma b64_eval_big:
  assumes "2 ^ 52 \<le> \<bar>x\<bar> / 2 ^ k" and "\<bar>x\<bar> / 2 ^ k < 2 ^ 53"
  shows "b64 x = of_int (round_half_even (x / 2 ^ k)) * 2 ^ k"
proof -
  have e: "real_of_int (52 + int k) = 52 + real k" by simp
  have p52: "(2::real) powr (of_int (52 + int k)) = 2 ^ 52 * 2 ^ k"
    unfolding e two_powr_add_nat ..
  have p53: "(2::real) powr (of_int (52 + int k) + 1) = 2 ^ 53 * 2 ^ k"
    unfolding e two_powr_Suc two_powr_add_nat by simp
  have "2 ^ 52 * 2 ^ k \<le> \<bar>x\<bar>"
    using assms(1) by (simp add: pos_le_divide_eq)
  then have lo: "2 powr (of_int (52 + int k)) \<le> \<bar>x\<bar>"
    unfolding p52 .
  have "\<bar>x\<bar> < 2 ^ 53 * 2 ^ k"
    using assms(2) by (simp add: pos_divide_less_eq)
  then have hi: "\<bar>x\<bar> < 2 powr (of_int (52 + int k) + 1)"
    unfolding p53 .
  have "binade x = 52 + int k"
    using lo hi by (intro binade_eqI) simp_all
  then have "ulp x = 2 ^ k"
    by (simp add: ulp_def powr_realpow)
  then show ?thesis by (simp add: b64_def)
qed

lemma round_half_even_eqI:
  "of_int m \<le> y \<Longrightarrow> y < of_int m + 1 / 2 \<Longrightarrow> round_half_even y = m"
proof -
  assume lo: "of_int m \<le> y" and hi: "y < of_int m + 1 / 2"
  then have "\<lfloor>y\<rfloor> = m" by (simp add: floor_eq_iff)
  with hi show ?thesis by (simp add: round_half_even_def)
qed




section \<open>The analytical estimate\<close>

text \<open>
  C2. For every volatility and every time horizon \<open>straddle_price\<close> is the closed form
  \<open>(2 / sqrt (2 pi)) * an_vol * sqrt time\<close>, a function of its two arguments alone: it
  takes no generator. Below zero the square root is not a real number; numpy's is
  \<open>nan\<close>, and so is the product.
\<close>

theorem straddle_price_closed_form:
  "straddle_price an_vol time =
     (if time < 0 then NaN else Num ((2 / sqrt (2 * pi)) * an_vol * sqrt time))"
  by (simp add: straddle_price_def np_sqrt_def powr_half_sqrt)

lemma straddle_price_Num:
  "0 \<le> t \<Longrightarrow> straddle_price s t = Num ((2 / sqrt (2 * pi)) * s * sqrt t)"
  by (simp add: straddle_price_def np_sqrt_def powr_half_sqrt)

subsection \<open>The order of the prices\<close>

lemma b64_1: "b64 1 = 1"
  using b64_eval [of 1 52] by (simp add: round_half_even_def)

lemma b64_2: "b64 2 = 2"
  using b64_eval [of 2 51] by (simp add: round_half_even_def)

lemma b64_4: "b64 4 = 4"
  using b64_eval [of 4 50] by (simp add: round_half_even_def)

lemma c64_bounds: "0 \<le> c64 \<and> c64 \<le> 1"
proof -
  have "b64 2 \<le> b64 pi" using pi_ge_two by (intro b64_mono) simp_all
  then have "4 \<le> 2 * b64 pi" by (simp add: b64_2)
  then have "b64 4 \<le> b64 (2 * b64 pi)" by (intro b64_mono) simp_all
  then have four: "4 \<le> b64 (2 * b64 pi)" by (simp add: b64_4)
  have "sqrt 4 \<le> sqrt (b64 (2 * b64 pi))" using four by (simp only: real_sqrt_le_iff)
  then have "2 \<le> b64 (2 * b64 pi) powr (1 / 2)"
    using four by (simp add: powr_half_sqrt)
  then have "b64 2 \<le> b64 (b64 (2 * b64 pi) powr (1 / 2))" by (intro b64_mono) simp_all
  then have two: "2 \<le> b64 (b64 (2 * b64 pi) powr (1 / 2))" by (simp add: b64_2)
  then have q: "0 \<le> 2 / b64 (b64 (2 * b64 pi) powr (1 / 2)) \<and>
      2 / b64 (b64 (2 * b64 pi) powr (1 / 2)) \<le> 1"
    by (simp add: field_simps)
  then have "b64 (2 / b64 (b64 (2 * b64 pi) powr (1 / 2))) \<le> b64 1"
    by (intro b64_mono) simp_all
  moreover have "0 \<le> b64 (2 / b64 (b64 (2 * b64 pi) powr (1 / 2)))"
    using q by (intro b64_nonneg) simp
  ultimately show ?thesis by (simp add: c64_def b64_1)
qed

lemma straddle_price_binary64_Num:
  "0 \<le> t \<Longrightarrow> straddle_price_binary64 s t = Num (b64 (b64 (c64 * s) * b64 (sqrt t)))"
  by (simp add: straddle_price_binary64_def np_sqrt_def)

text \<open>
  C7, as amended. For positive volatilities and times the price, computed with the
  rounding of each operation of the line, is non-decreasing in the volatility and in
  the time: from \<open>s1 \<le> s2\<close> and \<open>t1 \<le> t2\<close> the price at \<open>(s1, t1)\<close> is at most the
  price at \<open>(s2, t2)\<close>.
\<close>

theorem straddle_price_mono:
  assumes "0 < s1" and "s1 \<le> s2" and "0 < t1" and "t1 \<le> t2"
  shows "np_le (straddle_price_binary64 s1 t1) (straddle_price_binary64 s2 t2)"
proof -
  have c: "0 \<le> c64" using c64_bounds by simp
  have "c64 * s1 \<le> c64 * s2" using assms(2) c by (rule mult_left_mono)
  moreover have cs: "0 \<le> c64 * s1" using c assms(1) by simp
  ultimately have a: "b64 (c64 * s1) \<le> b64 (c64 * s2)" by (rule b64_mono [rotated])
  have a0: "0 \<le> b64 (c64 * s1)" using cs by (rule b64_nonneg)
  have "sqrt t1 \<le> sqrt t2" using assms(4) by simp
  moreover have "0 \<le> sqrt t1" using assms(3) by simp
  ultimately have r: "b64 (sqrt t1) \<le> b64 (sqrt t2)" by (rule b64_mono [rotated])
  have r0: "0 \<le> b64 (sqrt t1)" using assms(3) by (intro b64_nonneg) simp
  have "b64 (c64 * s1) * b64 (sqrt t1) \<le> b64 (c64 * s2) * b64 (sqrt t2)"
    using a r a0 r0 by (intro mult_mono) linarith+
  moreover have "0 \<le> b64 (c64 * s1) * b64 (sqrt t1)" using a0 r0 by simp
  ultimately have "b64 (b64 (c64 * s1) * b64 (sqrt t1)) \<le> b64 (b64 (c64 * s2) * b64 (sqrt t2))"
    by (rule b64_mono [rotated])
  then show ?thesis using assms by (simp add: straddle_price_binary64_Num)
qed

text \<open>
  The volatilities 0.25 and 0.5 at the times 1 and 4.
\<close>

theorem straddle_price_mono_witness:
  "(0::real) < 1 / 4 \<and> (1 / 4 :: real) \<le> 1 / 2 \<and> (0::real) < 1 \<and> (1::real) \<le> 4 \<and>
   np_le (straddle_price_binary64 (1 / 4) 1) (straddle_price_binary64 (1 / 2) 4)"
  using straddle_price_mono [of "1 / 4" "1 / 2" 1 4] by simp

lemma b64_sqrt_next_after_1: "b64 (sqrt (1 + 1 / 2 ^ 52)) = 1"
proof -
  define e :: real where "e = 1 / 2 ^ 52"
  have e: "0 < e" "e * 2 ^ 52 = 1" by (simp_all add: e_def)
  have lo: "1 \<le> sqrt (1 + e)" using e(1) by simp
  have "1 + e < (1 + e / 2)\<^sup>2" using e(1) by (simp add: power2_eq_square algebra_simps)
  then have "sqrt (1 + e) < sqrt ((1 + e / 2)\<^sup>2)" by (simp only: real_sqrt_less_iff)
  then have hi: "sqrt (1 + e) < 1 + e / 2" using e(1) by simp
  have hi': "sqrt (1 + e) * 2 ^ 52 < 2 ^ 52 + 1 / 2"
  proof -
    have "sqrt (1 + e) * 2 ^ 52 < (1 + e / 2) * 2 ^ 52" using hi by simp
    also have "\<dots> = 2 ^ 52 + e * 2 ^ 52 / 2" by (simp add: algebra_simps)
    also have "\<dots> = 2 ^ 52 + 1 / 2" unfolding e(2) ..
    finally show ?thesis .
  qed
  have lo': "2 ^ 52 \<le> sqrt (1 + e) * 2 ^ 52" using lo by simp
  have rd: "round_half_even (sqrt (1 + e) * 2 ^ 52) = 2 ^ 52"
    using lo' hi' by (intro round_half_even_eqI) simp_all
  have "b64 (sqrt (1 + e)) = of_int (round_half_even (sqrt (1 + e) * 2 ^ 52)) / 2 ^ 52"
  proof (rule b64_eval)
    show "2 ^ 52 \<le> \<bar>sqrt (1 + e)\<bar> * 2 ^ 52" using lo' lo by simp
    show "\<bar>sqrt (1 + e)\<bar> * 2 ^ 52 < 2 ^ 53" using hi' lo by simp
    show "(52::nat) \<le> 1074" by simp
  qed
  then have "b64 (sqrt (1 + e)) = of_int (2 ^ 52) / 2 ^ 52" unfolding rd .
  then have "b64 (sqrt (1 + e)) = 1" by simp
  then show ?thesis unfolding e_def .
qed

lemma b64_sqrt_1: "b64 (sqrt 1) = 1"
  by (simp add: b64_1)

lemma price_underflow:
  assumes "0 \<le> s" and "s \<le> 1 / 2 ^ 539"
  shows "b64 (b64 (c64 * s) * b64 (sqrt (1 / 2 ^ 1074))) = 0"
proof -
  have sq: "sqrt (1 / 2 ^ 1074) = 1 / 2 ^ 537"
  proof -
    have "(1 / 2 ^ 1074 :: real) = (1 / 2 ^ 537)\<^sup>2"
      by (simp add: power2_eq_square power_add [symmetric] del: power_add)
    then show ?thesis by (simp only: real_sqrt_abs) simp
  qed
  have r: "b64 (1 / 2 ^ 537) = 1 / 2 ^ 537"
    using b64_power_of_two [of 589] by (simp add: power_add [symmetric] field_simps)
  have p: "b64 (1 / 2 ^ 539) = 1 / 2 ^ 539"
    using b64_power_of_two [of 591] by (simp add: field_simps)
  have "c64 * s \<le> 1 * (1 / 2 ^ 539)"
    using c64_bounds assms by (intro mult_mono) simp_all
  moreover have "0 \<le> c64 * s" using c64_bounds assms by simp
  ultimately have "b64 (c64 * s) \<le> b64 (1 / 2 ^ 539)" by (intro b64_mono) simp_all
  then have up: "b64 (c64 * s) \<le> 1 / 2 ^ 539" unfolding p .
  have lo: "0 \<le> b64 (c64 * s)" using c64_bounds assms by (intro b64_nonneg) simp
  have "b64 (c64 * s) * (1 / 2 ^ 537) \<le> 1 / 2 ^ 539 * (1 / 2 ^ 537)"
    using up by (intro mult_right_mono) simp_all
  also have "\<dots> = 2 powr (- 1076)"
    by (simp add: powr_minus_divide power_add [symmetric] powr_realpow [symmetric] del: power_add)
  also have "\<dots> < 2 powr (- 1075)" by simp
  finally have "\<bar>b64 (c64 * s) * (1 / 2 ^ 537)\<bar> < 2 powr (- 1075)" using lo by simp
  then have "b64 (b64 (c64 * s) * (1 / 2 ^ 537)) = 0" by (rule b64_underflow)
  then show ?thesis unfolding sq r .
qed

text \<open>
  C7 as stated, strictly increasing, fails in both arguments. The time 1 and the next
  float above it, \<open>1 + 1 / 2 ^ 52\<close>, have the same rounded square root 1, and so the same
  price at the volatility 0.25. At the time \<open>1 / 2 ^ 1074\<close>, the smallest positive float,
  the volatilities \<open>1 / 2 ^ 540\<close> and \<open>1 / 2 ^ 539\<close> both have the price 0: the product is
  below half the smallest positive float.
\<close>

theorem straddle_price_plateau:
  "straddle_price_binary64 (1 / 4) 1 = straddle_price_binary64 (1 / 4) (1 + 1 / 2 ^ 52) \<and>
   \<not> np_less (straddle_price_binary64 (1 / 4) 1) (straddle_price_binary64 (1 / 4) (1 + 1 / 2 ^ 52)) \<and>
   straddle_price_binary64 (1 / 2 ^ 540) (1 / 2 ^ 1074) = Num 0 \<and>
   straddle_price_binary64 (1 / 2 ^ 539) (1 / 2 ^ 1074) = Num 0 \<and>
   \<not> np_less (straddle_price_binary64 (1 / 2 ^ 540) (1 / 2 ^ 1074))
             (straddle_price_binary64 (1 / 2 ^ 539) (1 / 2 ^ 1074))"
proof -
  have "straddle_price_binary64 (1 / 4) 1 = Num (b64 (b64 (c64 * (1 / 4)) * b64 (sqrt 1)))"
    by (rule straddle_price_binary64_Num) simp
  then have a: "straddle_price_binary64 (1 / 4) 1 = Num (b64 (b64 (c64 * (1 / 4)) * 1))"
    unfolding real_sqrt_one b64_1 .
  have "straddle_price_binary64 (1 / 4) (1 + 1 / 2 ^ 52) =
      Num (b64 (b64 (c64 * (1 / 4)) * b64 (sqrt (1 + 1 / 2 ^ 52))))"
    by (rule straddle_price_binary64_Num) simp
  then have b: "straddle_price_binary64 (1 / 4) (1 + 1 / 2 ^ 52) =
      Num (b64 (b64 (c64 * (1 / 4)) * 1))"
    unfolding b64_sqrt_next_after_1 .
  have "straddle_price_binary64 (1 / 2 ^ 540) (1 / 2 ^ 1074) =
      Num (b64 (b64 (c64 * (1 / 2 ^ 540)) * b64 (sqrt (1 / 2 ^ 1074))))"
    by (rule straddle_price_binary64_Num) simp
  moreover have "b64 (b64 (c64 * (1 / 2 ^ 540)) * b64 (sqrt (1 / 2 ^ 1074))) = 0"
    by (rule price_underflow) (simp_all add: field_simps)
  ultimately have c: "straddle_price_binary64 (1 / 2 ^ 540) (1 / 2 ^ 1074) = Num 0"
    by (simp only:)
  have "straddle_price_binary64 (1 / 2 ^ 539) (1 / 2 ^ 1074) =
      Num (b64 (b64 (c64 * (1 / 2 ^ 539)) * b64 (sqrt (1 / 2 ^ 1074))))"
    by (rule straddle_price_binary64_Num) simp
  moreover have "b64 (b64 (c64 * (1 / 2 ^ 539)) * b64 (sqrt (1 / 2 ^ 1074))) = 0"
    by (rule price_underflow) simp_all
  ultimately have d: "straddle_price_binary64 (1 / 2 ^ 539) (1 / 2 ^ 1074) = Num 0"
    by (simp only:)
  show ?thesis unfolding a b c d by simp
qed

section \<open>The day count and the size of a draw\<close>

lemma array_too_big_single: "array_too_big [n] \<longleftrightarrow> n \<noteq> 0 \<and> 2 ^ 63 - 1 < 8 * n"
  by (simp add: array_too_big_def)

lemma array_too_big_pair_pos:
  "0 < m \<Longrightarrow> array_too_big [n, m] \<longleftrightarrow> 2 ^ 63 - 1 < 8 * ((if n = 0 then 1 else n) * m)"
  by (simp add: array_too_big_def)

text \<open>A non-negative time whose days fit an array: no overflow, and the count is the floor.\<close>

lemma day_count_fits:
  assumes "0 \<le> time" and "\<not> array_too_big [\<lfloor>b64 (time * 252)\<rfloor>]"
  shows "day_count time = Inr (int (nat \<lfloor>b64 (time * 252)\<rfloor>))"
proof -
  define p where "p = b64 (time * 252)"
  have p0: "0 \<le> p" unfolding p_def using assms(1) by (intro b64_nonneg) simp
  have "8 * \<lfloor>p\<rfloor> \<le> 2 ^ 63 - 1 \<or> \<lfloor>p\<rfloor> = 0"
    using assms(2) unfolding p_def array_too_big_single by auto
  then have "8 * \<lfloor>p\<rfloor> \<le> 9223372036854775807 \<or> \<lfloor>p\<rfloor> = 0" by simp
  then have "\<lfloor>p\<rfloor> \<le> 9223372036854775807" by linarith
  then have "p < 9223372036854775808"
    using real_of_int_floor_add_one_gt [of p] by linarith
  then have "p < 2 ^ 63" by simp
  also have "(2::real) ^ 63 < 2 ^ 1024" by (rule power_strict_increasing) simp_all
  finally have "\<not> 2 ^ 1024 \<le> \<bar>p\<bar>" using p0 by simp
  then show ?thesis
    using p0 by (simp add: day_count_def p_def [symmetric] py_int_def Let_def)
qed

lemma day_count_cases:
  obtains "day_count time = Inl OverflowError"
  | "day_count time = Inr (py_int (b64 (time * 252)))"
  by (cases "2 ^ 1024 \<le> \<bar>b64 (time * 252)\<bar>") (simp_all add: day_count_def Let_def)

section \<open>The Monte Carlo estimate\<close>

lemma trial_returns_Suc:
  "trial_returns dv nd g (Suc i) = trial_returns dv nd (sdrop nd g) i"
  by (simp add: trial_returns_def add.commute)

lemma sum_list_upt_shift:
  "sum_list (map f [0..<Suc k]) = f 0 + sum_list (map (\<lambda>i. f (Suc i)) [0..<k])"
proof -
  have "[0..<Suc k] = 0 # map Suc [0..<k]"
    by (simp add: upt_conv_Cons map_Suc_upt del: upt_Suc)
  then show ?thesis by (simp add: comp_def del: upt_Suc)
qed

lemma sdrop_sconst: "sdrop n (sconst x) = sconst x"
  by (induction n) simp_all

text \<open>With a volatility and a day count that numpy accepts, the loop runs to its end.\<close>

lemma mc_loop_ok:
  assumes "0 \<le> dv" and "\<not> array_too_big [int nd]"
  shows "mc_loop k dv (int nd) acc g =
     Inr (acc + sum_list (map (\<lambda>i. path_straddle_return (trial_returns dv nd g i)) [0..<k]),
          sdrop (k * nd) g)"
proof (induction k arbitrary: acc g)
  case 0
  then show ?case by simp
next
  case (Suc k)
  have first: "random_normal 0 dv (int nd) g = Inr (trial_returns dv nd g 0, sdrop nd g)"
    using assms by (simp add: random_normal_def trial_returns_def)
  show ?case
    unfolding sum_list_upt_shift mc_loop.simps first
    by (simp add: Suc.IH trial_returns_Suc add.commute add.assoc del: upt_Suc)
qed

lemma mc_loop_error:
  "dv < 0 \<or> nd < 0 \<Longrightarrow> mc_loop (Suc k) dv nd acc g = Inl ValueError"
  by (auto simp add: random_normal_def)

lemma path_straddle_return_nonneg: "0 \<le> path_straddle_return rs"
  by (simp add: path_straddle_return_def)

lemma mc_loop_lower:
  "mc_loop k dv nd acc g = Inr (s, g') \<Longrightarrow> acc \<le> s"
proof (induction k arbitrary: acc g)
  case 0
  then show ?case by simp
next
  case (Suc k)
  from Suc.prems obtain rs g1 where
    draw: "random_normal 0 dv nd g = Inr (rs, g1)" and
    rest: "mc_loop k dv nd (acc + path_straddle_return rs) g1 = Inr (s, g')"
    by (auto split: sum.splits)
  from Suc.IH [OF rest] path_straddle_return_nonneg [of rs] show ?case by linarith
qed

text \<open>
  C1, as amended. For every volatility \<open>an_vol > 0\<close>, every \<open>time > 0\<close> whose day count
  numpy accepts as the size of an array, every \<open>mc_paths \<ge> 1\<close> and every realisation
  \<open>g\<close> of the draws, \<open>straddle_pricer_mc\<close> returns the arithmetic mean over the
  \<open>mc_paths\<close> trials of \<open>|product of (1 + daily return) - 1|\<close>. Trial \<open>i\<close> has \<open>n_days\<close>
  daily returns, \<open>n_days\<close> being the integer part of the binary64 product
  \<open>time * 252\<close>: the exact product rounded, then truncated. Each daily return is
  \<open>0 + daily_vol * z\<close> for a standard normal variate \<open>z\<close> of the realisation, with
  \<open>daily_vol = an_vol / sqrt 252\<close>. The generator has then handed out
  \<open>mc_paths * n_days\<close> variates.
\<close>

theorem straddle_pricer_mc_mean:
  assumes "0 < an_vol" and "0 < time" and "\<not> array_too_big [\<lfloor>b64 (time * 252)\<rfloor>]"
    and "1 \<le> mc_paths"
  shows "straddle_pricer_mc an_vol time mc_paths g =
     Inr ((\<Sum>i\<leftarrow>[0..<nat mc_paths].
             \<bar>(\<Prod>r\<leftarrow>trial_returns (an_vol / sqrt 252) (nat \<lfloor>b64 (time * 252)\<rfloor>) g i. 1 + r) - 1\<bar>)
           / real_of_int mc_paths,
          sdrop (nat mc_paths * nat \<lfloor>b64 (time * 252)\<rfloor>) g)"
proof -
  define nd where "nd = nat \<lfloor>b64 (time * 252)\<rfloor>"
  define k where "k = nat mc_paths"
  have dv: "0 \<le> an_vol / sqrt 252" using assms(1) by simp
  have days: "day_count time = Inr (int nd)"
    unfolding nd_def using assms(2,3) by (intro day_count_fits) simp_all
  have "0 \<le> b64 (time * 252)" using assms(2) by (intro b64_nonneg) simp
  then have "int nd = \<lfloor>b64 (time * 252)\<rfloor>" by (simp add: nd_def)
  with assms(3) have fits: "\<not> array_too_big [int nd]" by simp
  have loop: "mc_loop k (an_vol / sqrt 252) (int nd) 0 g =
      Inr (0 + sum_list (map (\<lambda>i. path_straddle_return (trial_returns (an_vol / sqrt 252) nd g i)) [0..<k]),
           sdrop (k * nd) g)"
    by (rule mc_loop_ok [OF dv fits])
  have "mc_paths \<noteq> 0" using assms(4) by simp
  then show ?thesis
    unfolding straddle_pricer_mc_def Let_def days nd_def [symmetric] k_def [symmetric]
    by (simp add: loop path_straddle_return_def)
qed

text \<open>Concrete day counts.\<close>

lemma b64_189_64: "b64 (189 / 64) = 189 / 64"
  using b64_eval [of "189 / 64" 51] by (simp add: round_half_even_def)

text \<open>
  The time \<open>3 / 256\<close> has the product \<open>189 / 64\<close>, a float, and so 2 days. Two paths of
  two days each, from the variates 1, 2, 3, 4: the first path takes 1 and 2, the second
  3 and 4.
\<close>

theorem straddle_pricer_mc_mean_witness:
  "(0::real) < 1 / 4 \<and> (0::real) < 3 / 256 \<and> \<not> array_too_big [\<lfloor>b64 (3 / 256 * 252)\<rfloor>] \<and>
   (1::int) \<le> 2 \<and>
   straddle_pricer_mc (1 / 4) (3 / 256) 2 (1 ## 2 ## 3 ## sconst 4) =
     Inr ((\<bar>(1 + 1 / 4 / sqrt 252 * 1) * (1 + 1 / 4 / sqrt 252 * 2) - 1\<bar> +
           \<bar>(1 + 1 / 4 / sqrt 252 * 3) * (1 + 1 / 4 / sqrt 252 * 4) - 1\<bar>) / 2, sconst 4)"
  using straddle_pricer_mc_mean [of "1 / 4" "3 / 256" 2 "1 ## 2 ## 3 ## sconst 4"]
  by (simp add: b64_189_64 array_too_big_single trial_returns_def eval_nat_numeral upt_rec sdrop_sconst)

text \<open>Day counts of some times.\<close>

lemma day_count_float_1_12: "day_count (6004799503160661 / 2 ^ 56) = Inr 21"
proof -
  have b: "b64 (6004799503160661 / 2 ^ 56 * 252) = 21"
    using b64_eval [of "6004799503160661 / 2 ^ 56 * 252" 48]
    by (simp add: round_half_even_def)
  show ?thesis unfolding day_count_def Let_def b by (simp add: py_int_def)
qed

lemma day_count_float_1_252: "day_count (285942833483841 / 2 ^ 56) = Inr 1"
proof -
  have b: "b64 (285942833483841 / 2 ^ 56 * 252) = 1"
    using b64_eval [of "285942833483841 / 2 ^ 56 * 252" 53]
    by (simp add: round_half_even_def)
  show ?thesis unfolding day_count_def Let_def b by (simp add: py_int_def)
qed

lemma day_count_1: "day_count 1 = Inr 252"
proof -
  have b: "b64 (1 * 252) = 252"
    using b64_eval [of 252 45] by (simp add: round_half_even_def)
  show ?thesis unfolding day_count_def Let_def b by (simp add: py_int_def)
qed

lemma day_count_1_504: "day_count (1 / 504) = Inr 0"
proof -
  have b: "b64 (1 / 504 * 252) = 1 / 2"
    using b64_eval [of "1 / 2" 53] by (simp add: round_half_even_def)
  show ?thesis unfolding day_count_def Let_def b by (simp add: py_int_def)
qed

lemma day_count_1e17: "day_count (10 ^ 17) = Inr (10 ^ 17 * 252)"
proof -
  have b: "b64 (10 ^ 17 * 252) = 10 ^ 17 * 252"
    using b64_eval_big [of "10 ^ 17 * 252" 12] by (simp add: round_half_even_def)
  show ?thesis unfolding day_count_def Let_def b by (simp add: py_int_def)
qed

text \<open>
  C1 as stated fails in three ways. For a negative volatility numpy refuses the scale,
  and the call raises \<^verbatim>\<open>ValueError\<close> in place of returning a mean. The day count is not
  the floor of the product \<open>time * 252\<close>: for the float nearest \<open>1 / 12\<close>, which is
  \<open>6004799503160661 / 2 ^ 56\<close>, the product is just below 21 and rounds to 21, so the code
  draws 21 days where the floor of the product is 20. And for the time \<open>10 ^ 17\<close> the day
  count is no size that numpy accepts: the draw raises \<^verbatim>\<open>ValueError\<close>.
\<close>

theorem straddle_pricer_mc_negative_vol:
  "straddle_pricer_mc (- 1 / 5) 1 1 (sconst 0) = Inl ValueError \<and>
   day_count (6004799503160661 / 2 ^ 56) = Inr 21 \<and>
   \<lfloor>6004799503160661 / 2 ^ 56 * (252::real)\<rfloor> = 20 \<and>
   straddle_pricer_mc (1 / 4) (10 ^ 17) 1 (sconst 0) = Inl ValueError"
proof (intro conjI)
  show "straddle_pricer_mc (- 1 / 5) 1 1 (sconst 0) = Inl ValueError"
    unfolding straddle_pricer_mc_def Let_def day_count_1
    by (simp add: random_normal_def)
  show "day_count (6004799503160661 / 2 ^ 56) = Inr 21"
    by (rule day_count_float_1_12)
  show "\<lfloor>6004799503160661 / 2 ^ 56 * (252::real)\<rfloor> = 20"
    by simp
  show "straddle_pricer_mc (1 / 4) (10 ^ 17) 1 (sconst 0) = Inl ValueError"
    unfolding straddle_pricer_mc_def Let_def day_count_1e17
    by (simp add: random_normal_def array_too_big_def)
qed

text \<open>
  C9, as amended. For every volatility \<open>an_vol > 0\<close> and every \<open>time > 0\<close> whose binary64
  product \<open>time * 252\<close> is below 1, the day count is 0, and \<open>straddle_pricer_mc\<close> returns
  exactly 0 for every \<open>mc_paths \<ge> 1\<close>, whatever the generator holds; it takes no
  variate from it.
\<close>

theorem straddle_pricer_mc_no_day:
  assumes "0 < an_vol" and "0 < time" and "b64 (time * 252) < 1" and "1 \<le> mc_paths"
  shows "day_count time = Inr 0 \<and> straddle_pricer_mc an_vol time mc_paths g = Inr (0, g)"
proof -
  have p0: "0 \<le> b64 (time * 252)" using assms(2) by (intro b64_nonneg) simp
  with assms(3) have fl: "\<lfloor>b64 (time * 252)\<rfloor> = 0" by (simp add: floor_eq_iff)
  have days: "day_count time = Inr (int 0)"
    using day_count_fits [of time] assms(2) by (simp add: fl array_too_big_single)
  have dv: "0 \<le> an_vol / sqrt 252" using assms(1) by simp
  have fits: "\<not> array_too_big [int 0]" by (simp add: array_too_big_single)
  have loop: "mc_loop (nat mc_paths) (an_vol / sqrt 252) (int 0) 0 g =
      Inr (0 + sum_list (map (\<lambda>i. path_straddle_return (trial_returns (an_vol / sqrt 252) 0 g i))
             [0..<nat mc_paths]), sdrop (nat mc_paths * 0) g)"
    by (rule mc_loop_ok [OF dv fits])
  have "mc_paths \<noteq> 0" using assms(4) by simp
  then have "straddle_pricer_mc an_vol time mc_paths g = Inr (0, g)"
    unfolding straddle_pricer_mc_def Let_def days sum.case loop
    by (simp add: trial_returns_def path_straddle_return_def)
  with days show ?thesis by simp
qed

text \<open>
  The time \<open>1 / 512\<close>, with the product \<open>63 / 128\<close>, and three paths.
\<close>

theorem straddle_pricer_mc_no_day_witness:
  "(0::real) < 1 / 4 \<and> (0::real) < 1 / 512 \<and> b64 (1 / 512 * 252) < 1 \<and> (1::int) \<le> 3 \<and>
   day_count (1 / 512) = Inr 0 \<and>
   straddle_pricer_mc (1 / 4) (1 / 512) 3 (1 ## 2 ## sconst 3) = Inr (0, 1 ## 2 ## sconst 3)"
proof -
  have b: "b64 (1 / 512 * 252) = 63 / 128"
    using b64_eval [of "63 / 128" 54] by (simp add: round_half_even_def)
  have h: "b64 (1 / 512 * 252) < 1" unfolding b by simp
  from straddle_pricer_mc_no_day [of "1 / 4" "1 / 512" 3 "1 ## 2 ## sconst 3", OF _ _ h] h
  show ?thesis by simp
qed

text \<open>
  C9 as stated fails in two ways. For a negative volatility numpy checks the scale
  before the size, so the call raises even though no day is drawn. And a time below
  \<open>1 / 252\<close> can have a day: the float nearest \<open>1 / 252\<close>, which is
  \<open>285942833483841 / 2 ^ 56\<close>, is below \<open>1 / 252\<close>, its product with 252 rounds to 1, and
  the estimate is the absolute value of one daily return, which is not 0.
\<close>

theorem straddle_pricer_mc_no_day_negative_vol:
  "straddle_pricer_mc (- 1 / 5) (1 / 504) 1 (sconst 1) = Inl ValueError \<and>
   285942833483841 / 2 ^ 56 < (1 / 252 :: real) \<and>
   day_count (285942833483841 / 2 ^ 56) = Inr 1 \<and>
   straddle_pricer_mc (1 / 4) (285942833483841 / 2 ^ 56) 1 (sconst 1) =
     Inr (\<bar>1 + (0 + 1 / 4 / sqrt 252 * 1) - 1\<bar> / 1, sconst 1) \<and>
   \<bar>1 + (0 + 1 / 4 / sqrt 252 * 1) - 1\<bar> / 1 \<noteq> (0::real)"
proof (intro conjI)
  show "straddle_pricer_mc (- 1 / 5) (1 / 504) 1 (sconst 1) = Inl ValueError"
    unfolding straddle_pricer_mc_def Let_def day_count_1_504
    by (simp add: random_normal_def)
  show "285942833483841 / 2 ^ 56 < (1 / 252 :: real)" by simp
  show "day_count (285942833483841 / 2 ^ 56) = Inr 1"
    by (rule day_count_float_1_252)
  show "straddle_pricer_mc (1 / 4) (285942833483841 / 2 ^ 56) 1 (sconst 1) =
      Inr (\<bar>1 + (0 + 1 / 4 / sqrt 252 * 1) - 1\<bar> / 1, sconst 1)"
    unfolding straddle_pricer_mc_def Let_def day_count_float_1_252
    by (simp add: random_normal_def array_too_big_def path_straddle_return_def)
  show "\<bar>1 + (0 + 1 / 4 / sqrt 252 * 1) - 1\<bar> / 1 \<noteq> (0::real)" by simp
qed

text \<open>
  C3. Called with \<open>mc_paths = 1\<close> on the generator \<open>g\<close>, \<open>straddle_pricer_mc\<close> returns
  exactly the straddle return that \<open>simulate_asset_path\<close> returns for the same volatility
  and time on the same generator, and leaves the generator in the same state; where one
  raises, the other raises the same exception.
\<close>

theorem one_path_agrees:
  "straddle_pricer_mc an_vol time 1 g =
     map_sum id (\<lambda>((df, straddle_return), g'). (straddle_return, g'))
       (simulate_asset_path an_vol time g)"
  by (simp add: straddle_pricer_mc_def simulate_asset_path_def Let_def
      split: sum.splits prod.splits)

section \<open>The simulated path\<close>

lemma length_cumprod_from: "length (cumprod_from acc xs) = length xs"
  by (induction xs arbitrary: acc) simp_all

lemma last_cumprod_from:
  "xs \<noteq> [] \<Longrightarrow> last (cumprod_from acc xs) = acc * prod_list xs"
proof (induction xs arbitrary: acc)
  case Nil
  then show ?case by simp
next
  case (Cons x xs)
  show ?case
  proof (cases xs)
    case Nil
    then show ?thesis by simp
  next
    case (Cons y ys)
    then have "xs \<noteq> []" by simp
    from Cons.IH [OF this, of "acc * x"] Cons show ?thesis
      by (simp add: mult.assoc)
  qed
qed

lemma cumprod_from_Nil_iff: "cumprod_from acc xs = [] \<longleftrightarrow> xs = []"
  by (cases xs) simp_all

lemma simulate_asset_path_ok:
  assumes "0 \<le> an_vol" and "day_count time = Inr (int nd)" and "\<not> array_too_big [int nd]"
  shows "simulate_asset_path an_vol time g =
     Inr ((\<lparr>df_return = map (\<lambda>r. r + 1) (trial_returns (an_vol / sqrt 252) nd g 0),
            df_price = cumprod (map (\<lambda>r. r + 1) (trial_returns (an_vol / sqrt 252) nd g 0))\<rparr>,
           path_straddle_return (trial_returns (an_vol / sqrt 252) nd g 0)),
          sdrop nd g)"
proof -
  have dv: "\<not> an_vol / sqrt 252 < 0" using assms(1) by (simp add: divide_less_0_iff not_less)
  show ?thesis
    unfolding simulate_asset_path_def Let_def assms(2) sum.case
    using dv assms(3) by (simp add: random_normal_def trial_returns_def)
qed

lemma simulate_asset_path_error:
  assumes "day_count time = Inr n" and "an_vol < 0 \<or> n < 0"
  shows "simulate_asset_path an_vol time g = Inl ValueError"
  unfolding simulate_asset_path_def Let_def assms(1) sum.case
  using assms(2) by (auto simp add: random_normal_def divide_less_0_iff)

text \<open>
  C4, as amended. For every volatility \<open>an_vol > 0\<close>, every \<open>time > 0\<close> whose day count
  numpy accepts as the size of an array, and every realisation of the draws,
  \<open>simulate_asset_path\<close> returns, and its price series has the length \<open>n_days\<close>, the
  integer part of the binary64 product \<open>time * 252\<close>. When there is at least one day
  (the binary64 product is at least 1), the first value of the series is 1 + the first
  daily return, and the absolute value of (its last value - 1) is the straddle return
  returned beside it.
\<close>

theorem simulate_asset_path_series:
  assumes "0 < an_vol" and "0 < time" and "\<not> array_too_big [\<lfloor>b64 (time * 252)\<rfloor>]"
  shows "\<exists>df sr g'. simulate_asset_path an_vol time g = Inr ((df, sr), g') \<and>
           length (df_price df) = nat \<lfloor>b64 (time * 252)\<rfloor> \<and>
           (1 \<le> b64 (time * 252) \<longrightarrow>
              first_value (df_price df) = Some (1 + (0 + an_vol / sqrt 252 * shd g)) \<and>
              (\<exists>l. last_value (df_price df) = Some l \<and> \<bar>l - 1\<bar> = sr))"
proof -
  define nd where "nd = nat \<lfloor>b64 (time * 252)\<rfloor>"
  define rs where "rs = trial_returns (an_vol / sqrt 252) nd g 0"
  have days: "day_count time = Inr (int nd)"
    unfolding nd_def using assms(2,3) by (intro day_count_fits) simp_all
  have "0 \<le> b64 (time * 252)" using assms(2) by (intro b64_nonneg) simp
  then have "int nd = \<lfloor>b64 (time * 252)\<rfloor>" by (simp add: nd_def)
  with assms(3) have fits: "\<not> array_too_big [int nd]" by simp
  have len: "length rs = nd" by (simp add: rs_def trial_returns_def)
  have run: "simulate_asset_path an_vol time g =
      Inr ((\<lparr>df_return = map (\<lambda>r. r + 1) rs, df_price = cumprod (map (\<lambda>r. r + 1) rs)\<rparr>,
            path_straddle_return rs), sdrop nd g)"
    unfolding rs_def using assms(1) by (intro simulate_asset_path_ok [OF _ days fits]) simp
  have "length (cumprod (map (\<lambda>r. r + 1) rs)) = nd"
    by (simp add: cumprod_def length_cumprod_from len)
  moreover have "first_value (cumprod (map (\<lambda>r. r + 1) rs)) = Some (1 + (0 + an_vol / sqrt 252 * shd g)) \<and>
      (\<exists>l. last_value (cumprod (map (\<lambda>r. r + 1) rs)) = Some l \<and> \<bar>l - 1\<bar> = path_straddle_return rs)"
    if "1 \<le> b64 (time * 252)"
  proof -
    from that have "1 \<le> \<lfloor>b64 (time * 252)\<rfloor>" by linarith
    then have "0 < nd" by (simp add: nd_def)
    then obtain k where k: "nd = Suc k" by (cases nd) simp_all
    have rs_Cons: "rs = (0 + an_vol / sqrt 252 * shd g) # map (\<lambda>z. 0 + an_vol / sqrt 252 * z) (stake k (stl g))"
      by (simp add: rs_def trial_returns_def k)
    have first: "first_value (cumprod (map (\<lambda>r. r + 1) rs)) = Some (1 + (0 + an_vol / sqrt 252 * shd g))"
      by (simp add: rs_Cons first_value_def cumprod_def)
    have ne: "map (\<lambda>r. r + 1) rs \<noteq> []" by (simp add: rs_Cons)
    have "last (cumprod (map (\<lambda>r. r + 1) rs)) = prod_list (map (\<lambda>r. r + 1) rs)"
      unfolding cumprod_def using last_cumprod_from [OF ne, of 1] by simp
    moreover have "prod_list (map (\<lambda>r. r + 1) rs) = prod_list (map (\<lambda>r. 1 + r) rs)"
      by (simp add: add.commute)
    ultimately have "last_value (cumprod (map (\<lambda>r. r + 1) rs)) = Some (prod_list (map (\<lambda>r. 1 + r) rs))"
      using ne by (simp add: last_value_def cumprod_def cumprod_from_Nil_iff)
    then show ?thesis using first by (simp add: path_straddle_return_def)
  qed
  ultimately show ?thesis unfolding run nd_def [symmetric] by auto
qed

text \<open>
  The time \<open>3 / 256\<close>, of 2 days, from the variates 1, 2.
\<close>

theorem simulate_asset_path_series_witness:
  "(0::real) < 1 / 4 \<and> (0::real) < 3 / 256 \<and> \<not> array_too_big [\<lfloor>b64 (3 / 256 * 252)\<rfloor>] \<and>
   1 \<le> b64 (3 / 256 * 252) \<and>
   (\<exists>df sr g'. simulate_asset_path (1 / 4) (3 / 256) (1 ## 2 ## sconst 3) = Inr ((df, sr), g') \<and>
      length (df_price df) = 2 \<and>
      first_value (df_price df) = Some (1 + 1 / 4 / sqrt 252) \<and>
      (\<exists>l. last_value (df_price df) = Some l \<and> \<bar>l - 1\<bar> = sr))"
  using simulate_asset_path_series [of "1 / 4" "3 / 256" "1 ## 2 ## sconst 3"]
  by (simp add: b64_189_64 array_too_big_single)

lemma day_count_float_1_126: "day_count (285942833483841 / 2 ^ 55) = Inr 2"
proof -
  have b: "b64 (285942833483841 / 2 ^ 55 * 252) = 2"
    using b64_eval [of "285942833483841 / 2 ^ 55 * 252" 52]
    by (simp add: round_half_even_def)
  show ?thesis unfolding day_count_def Let_def b by (simp add: py_int_def)
qed

text \<open>
  C4 as stated fails in its three parts. For a positive time below one trading day the
  series is empty and has neither a first nor a last value. For a negative volatility
  the draw raises. The length is not the floor of the product \<open>time * 252\<close>: for the
  float nearest \<open>1 / 126\<close>, which is \<open>285942833483841 / 2 ^ 55\<close>, the product rounds to 2
  and the series has two rows, where the floor of the product is 1. And for the time
  \<open>10 ^ 17\<close> the draw raises \<^verbatim>\<open>ValueError\<close>: no series is returned.
\<close>

theorem simulate_asset_path_empty_series:
  "simulate_asset_path (1 / 5) (1 / 504) (sconst 1) =
     Inr ((\<lparr>df_return = [], df_price = []\<rparr>, 0), sconst 1) \<and>
   first_value [] = None \<and> last_value [] = None \<and>
   simulate_asset_path (- 1 / 5) 1 (sconst 1) = Inl ValueError \<and>
   simulate_asset_path (1 / 4) (285942833483841 / 2 ^ 55) (sconst 1) =
     Inr ((\<lparr>df_return = [0 + 1 / 4 / sqrt 252 * 1 + 1, 0 + 1 / 4 / sqrt 252 * 1 + 1],
            df_price = [1 * (0 + 1 / 4 / sqrt 252 * 1 + 1),
                        1 * (0 + 1 / 4 / sqrt 252 * 1 + 1) * (0 + 1 / 4 / sqrt 252 * 1 + 1)]\<rparr>,
           \<bar>(1 + (0 + 1 / 4 / sqrt 252 * 1)) * (1 + (0 + 1 / 4 / sqrt 252 * 1)) - 1\<bar>), sconst 1) \<and>
   \<lfloor>285942833483841 / 2 ^ 55 * (252::real)\<rfloor> = 1 \<and>
   simulate_asset_path (1 / 4) (10 ^ 17) (sconst 1) = Inl ValueError"
proof (intro conjI)
  show "simulate_asset_path (1 / 5) (1 / 504) (sconst 1) =
      Inr ((\<lparr>df_return = [], df_price = []\<rparr>, 0), sconst 1)"
    unfolding simulate_asset_path_def Let_def day_count_1_504 sum.case
    by (simp add: random_normal_def array_too_big_def path_straddle_return_def cumprod_def)
  show "first_value [] = None" by (simp add: first_value_def)
  show "last_value [] = None" by (simp add: last_value_def)
  show "simulate_asset_path (- 1 / 5) 1 (sconst 1) = Inl ValueError"
    unfolding simulate_asset_path_def Let_def day_count_1 sum.case
    by (simp add: random_normal_def)
  show "simulate_asset_path (1 / 4) (285942833483841 / 2 ^ 55) (sconst 1) =
      Inr ((\<lparr>df_return = [0 + 1 / 4 / sqrt 252 * 1 + 1, 0 + 1 / 4 / sqrt 252 * 1 + 1],
             df_price = [1 * (0 + 1 / 4 / sqrt 252 * 1 + 1),
                         1 * (0 + 1 / 4 / sqrt 252 * 1 + 1) * (0 + 1 / 4 / sqrt 252 * 1 + 1)]\<rparr>,
            \<bar>(1 + (0 + 1 / 4 / sqrt 252 * 1)) * (1 + (0 + 1 / 4 / sqrt 252 * 1)) - 1\<bar>), sconst 1)"
    unfolding simulate_asset_path_def Let_def day_count_float_1_126 sum.case
    by (simp add: random_normal_def array_too_big_def path_straddle_return_def cumprod_def
        eval_nat_numeral)
  show "\<lfloor>285942833483841 / 2 ^ 55 * (252::real)\<rfloor> = 1" by simp
  show "simulate_asset_path (1 / 4) (10 ^ 17) (sconst 1) = Inl ValueError"
    unfolding simulate_asset_path_def Let_def day_count_1e17 sum.case
    by (simp add: random_normal_def array_too_big_def)
qed

section \<open>The five vectorised estimates\<close>

lemma map_upt_shift:
  "map f [0..<Suc k] = f 0 # map (\<lambda>i. f (Suc i)) [0..<k]"
proof -
  have "[0..<Suc k] = 0 # map Suc [0..<k]"
    by (simp add: upt_conv_Cons map_Suc_upt del: upt_Suc)
  then show ?thesis by (simp add: comp_def del: upt_Suc)
qed

lemma fill_rows_length:
  "row \<in> set (fill_rows n m f g) \<Longrightarrow> length row = m"
  by (induction n arbitrary: g) auto

lemma column_fill_rows:
  "j < m \<Longrightarrow> map (\<lambda>row. row ! j) (fill_rows n m f g) = map (\<lambda>i. f (g !! (i * m + j))) [0..<n]"
proof (induction n arbitrary: g)
  case 0
  then show ?case by simp
next
  case (Suc n)
  have "map (\<lambda>row. row ! j) (fill_rows (Suc n) m f g) =
      f (g !! j) # map (\<lambda>i. f (sdrop m g !! (i * m + j))) [0..<n]"
    using Suc by (simp add: stake_nth)
  also have "\<dots> = map (\<lambda>i. f (g !! (i * m + j))) [0..<Suc n]"
    unfolding map_upt_shift by (simp add: sdrop_snth add.commute add.left_commute)
  finally show ?case .
qed

lemma column_add_scalar:
  assumes "\<forall>row \<in> set (rows a). j < length row"
  shows "column (add_scalar a c) j = map (\<lambda>x. x + c) (column a j)"
  using assms by (simp add: column_def add_scalar_def)

lemma batch_price_fill:
  assumes "0 < m"
  shows "batch_price \<lparr>n_rows = n, n_cols = m, rows = fill_rows n m f g\<rparr> (int m) =
     Num ((\<Sum>j\<leftarrow>[0..<m]. \<bar>(\<Prod>x\<leftarrow>map (\<lambda>i. f (g !! (i * m + j))) [0..<n]. 1 + x) - 1\<bar>) / real m)"
proof -
  let ?a = "\<lparr>n_rows = n, n_cols = m, rows = fill_rows n m f g\<rparr>"
  have col: "prod_list (column (add_scalar ?a 1) j) =
      (\<Prod>x\<leftarrow>map (\<lambda>i. f (g !! (i * m + j))) [0..<n]. 1 + x)" if "j < m" for j
  proof -
    have "\<forall>row \<in> set (rows ?a). j < length row"
      using that by (auto dest: fill_rows_length)
    then have "column (add_scalar ?a 1) j = map (\<lambda>x. x + 1) (column ?a j)"
      by (rule column_add_scalar)
    also have "column ?a j = map (\<lambda>i. f (g !! (i * m + j))) [0..<n]"
      using that by (simp add: column_def column_fill_rows)
    finally show ?thesis by (simp add: comp_def add.commute)
  qed
  have nc: "n_cols (add_scalar ?a 1) = m" by (simp add: add_scalar_def)
  have "prod_axis0 (add_scalar ?a 1) =
      map (\<lambda>j. (\<Prod>x\<leftarrow>map (\<lambda>i. f (g !! (i * m + j))) [0..<n]. 1 + x)) [0..<m]"
    unfolding prod_axis0_def nc by (rule map_cong) (simp_all only: col atLeastLessThan_iff set_upt)
  then have "map (\<lambda>p. \<bar>p - 1\<bar>) (prod_axis0 (add_scalar ?a 1)) =
      map (\<lambda>j. \<bar>(\<Prod>x\<leftarrow>map (\<lambda>i. f (g !! (i * m + j))) [0..<n]. 1 + x) - 1\<bar>) [0..<m]"
    by (simp only: map_map comp_def)
  then show ?thesis using assms by (simp only: batch_price_def Let_def) simp
qed


lemma batch_column_Suc:
  "batch_column dv n m g (Suc b) j = batch_column dv n m (sdrop (n * m) g) b j"
  by (simp add: batch_column_def sdrop_snth add.assoc)

lemma five_loop_ok:
  assumes "0 \<le> dv" and "0 < m" and "\<not> array_too_big [int n, int m]"
  shows "five_loop k dv (int n) (int m) res g =
     Inr (res @ map (\<lambda>b. Num ((\<Sum>j\<leftarrow>[0..<m]. \<bar>(\<Prod>x\<leftarrow>batch_column dv n m g b j. 1 + x) - 1\<bar>) / real m)) [0..<k],
          sdrop (k * (n * m)) g)"
proof (induction k arbitrary: res g)
  case 0
  show ?case by simp
next
  case (Suc k)
  have draw: "random_normal2 0 dv (int n, int m) g =
      Inr (\<lparr>n_rows = n, n_cols = m, rows = fill_rows n m (\<lambda>z. 0 + dv * z) g\<rparr>, sdrop (n * m) g)"
    using assms(1,3) by (simp add: random_normal2_def)
  have price: "batch_price \<lparr>n_rows = n, n_cols = m, rows = fill_rows n m (\<lambda>z. 0 + dv * z) g\<rparr> (int m) =
      Num ((\<Sum>j\<leftarrow>[0..<m]. \<bar>(\<Prod>x\<leftarrow>batch_column dv n m g 0 j. 1 + x) - 1\<bar>) / real m)"
    unfolding batch_price_fill [OF assms(2)] by (simp add: batch_column_def)
  show ?case
    unfolding five_loop.simps draw map_upt_shift
    by (simp only: sum.case prod.case price Suc.IH batch_column_Suc) simp
qed

lemma array_fits_rows:
  assumes "0 \<le> n" and "1 \<le> m" and "\<not> array_too_big [n, m]"
  shows "\<not> array_too_big [n]"
proof (cases "n = 0")
  case True
  then show ?thesis by (simp add: array_too_big_def)
next
  case False
  with assms(1) have n: "0 < n" by simp
  have "n * 1 \<le> n * m" using assms(2) n by (intro mult_left_mono) simp_all
  then have "8 * n \<le> 8 * (n * m)" by simp
  moreover have "8 * (n * m) \<le> 2 ^ 63 - 1"
    using assms(2,3) False by (simp add: array_too_big_def)
  ultimately show ?thesis using False by (simp add: array_too_big_def)
qed

text \<open>
  C5, as amended. For every volatility \<open>an_vol > 0\<close>, every \<open>time > 0\<close> and every
  \<open>mc_paths \<ge> 1\<close> such that numpy accepts the shape \<open>(n_days, mc_paths)\<close>, and every
  realisation of the draws, \<open>five_prices\<close> returns a list of exactly 5 floats; \<open>n_days\<close>
  is the integer part of the binary64 product \<open>time * 252\<close>. Element \<open>b\<close> (from 0) is the
  mean, over the \<open>mc_paths\<close> columns of the \<open>b\<close>-th \<open>n_days x mc_paths\<close> matrix of draws,
  of \<open>|product of the column's (1 + draw) - 1|\<close>, the product being the final value of
  the column's cumulative product (1 for a column of no day); the matrices are drawn
  one after the other, so the elements stand in generation order.
\<close>

theorem five_prices_estimates:
  assumes "0 < an_vol" and "0 < time" and "1 \<le> mc_paths"
    and "\<not> array_too_big [\<lfloor>b64 (time * 252)\<rfloor>, mc_paths]"
  shows "five_prices an_vol time mc_paths g =
     Inr (map (\<lambda>b. Num ((\<Sum>j\<leftarrow>[0..<nat mc_paths].
                   \<bar>(\<Prod>x\<leftarrow>batch_column (an_vol / sqrt 252) (nat \<lfloor>b64 (time * 252)\<rfloor>) (nat mc_paths) g b j. 1 + x) - 1\<bar>)
                 / real_of_int mc_paths)) [0..<5],
          sdrop (5 * (nat \<lfloor>b64 (time * 252)\<rfloor> * nat mc_paths)) g)"
proof -
  define nd where "nd = nat \<lfloor>b64 (time * 252)\<rfloor>"
  define m where "m = nat mc_paths"
  have dv: "0 \<le> an_vol / sqrt 252" using assms(1) by simp
  have p0: "0 \<le> b64 (time * 252)" using assms(2) by (intro b64_nonneg) simp
  then have fl0: "0 \<le> \<lfloor>b64 (time * 252)\<rfloor>" by simp
  have "\<not> array_too_big [\<lfloor>b64 (time * 252)\<rfloor>]"
    using fl0 assms(3,4) by (rule array_fits_rows)
  then have days: "day_count time = Inr (int nd)"
    unfolding nd_def using assms(2) by (intro day_count_fits) simp_all
  have nd: "int nd = \<lfloor>b64 (time * 252)\<rfloor>" using fl0 by (simp add: nd_def)
  have m: "mc_paths = int m" "0 < m" using assms(3) by (simp_all add: m_def)
  have fits: "\<not> array_too_big [int nd, int m]"
    using assms(4) unfolding nd m(1) [symmetric] .
  show ?thesis
    unfolding five_prices_def Let_def days sum.case nd_def [symmetric] m_def [symmetric]
    unfolding m(1) five_loop_ok [OF dv m(2) fits]
    by simp
qed

text \<open>
  Two paths of two days, from the variates 1, 2, 3, ...: the first matrix has the rows
  (1, 2) and (3, 4), so its columns are (1, 3) and (2, 4); the second matrix starts at 5.
\<close>

theorem five_prices_estimates_witness:
  "(0::real) < 1 / 4 \<and> (0::real) < 3 / 256 \<and> (1::int) \<le> 2 \<and>
   \<not> array_too_big [\<lfloor>b64 (3 / 256 * 252)\<rfloor>, 2] \<and>
   five_prices (1 / 4) (3 / 256) 2
       (1 ## 2 ## 3 ## 4 ## 5 ## 6 ## 7 ## 8 ## 9 ## 10 ## 11 ## 12 ## 13 ## 14 ## 15 ## 16 ## 17 ## 18 ## 19 ## sconst 20) =
     Inr ([Num ((\<bar>(1 + 1 / 4 / sqrt 252 * 1) * (1 + 1 / 4 / sqrt 252 * 3) - 1\<bar> +
                 \<bar>(1 + 1 / 4 / sqrt 252 * 2) * (1 + 1 / 4 / sqrt 252 * 4) - 1\<bar>) / 2),
           Num ((\<bar>(1 + 1 / 4 / sqrt 252 * 5) * (1 + 1 / 4 / sqrt 252 * 7) - 1\<bar> +
                 \<bar>(1 + 1 / 4 / sqrt 252 * 6) * (1 + 1 / 4 / sqrt 252 * 8) - 1\<bar>) / 2),
           Num ((\<bar>(1 + 1 / 4 / sqrt 252 * 9) * (1 + 1 / 4 / sqrt 252 * 11) - 1\<bar> +
                 \<bar>(1 + 1 / 4 / sqrt 252 * 10) * (1 + 1 / 4 / sqrt 252 * 12) - 1\<bar>) / 2),
           Num ((\<bar>(1 + 1 / 4 / sqrt 252 * 13) * (1 + 1 / 4 / sqrt 252 * 15) - 1\<bar> +
                 \<bar>(1 + 1 / 4 / sqrt 252 * 14) * (1 + 1 / 4 / sqrt 252 * 16) - 1\<bar>) / 2),
           Num ((\<bar>(1 + 1 / 4 / sqrt 252 * 17) * (1 + 1 / 4 / sqrt 252 * 19) - 1\<bar> +
                 \<bar>(1 + 1 / 4 / sqrt 252 * 18) * (1 + 1 / 4 / sqrt 252 * 20) - 1\<bar>) / 2)],
          sconst 20)"
  using five_prices_estimates [of "1 / 4" "3 / 256" 2
      "1 ## 2 ## 3 ## 4 ## 5 ## 6 ## 7 ## 8 ## 9 ## 10 ## 11 ## 12 ## 13 ## 14 ## 15 ## 16 ## 17 ## 18 ## 19 ## sconst 20"]
  by (simp add: b64_189_64 array_too_big_def batch_column_def eval_nat_numeral upt_rec sdrop_sconst)

text \<open>
  C5 as stated fails in three ways. For a negative volatility the first draw raises.
  The matrix has not \<open>floor (time * 252)\<close> rows: for the float nearest \<open>1 / 252\<close> the
  product is below 1 and rounds to 1, so every column has one day, and the five elements
  are not 0, as they are for a matrix of no row. And for the time \<open>10 ^ 17\<close> the draw
  raises \<^verbatim>\<open>ValueError\<close>.
\<close>

theorem five_prices_negative_vol:
  "five_prices (- 1 / 5) 1 1 (sconst 0) = Inl ValueError \<and>
   285942833483841 / 2 ^ 56 * (252::real) < 1 \<and>
   five_prices (1 / 4) (285942833483841 / 2 ^ 56) 1 (sconst 1) =
     Inr ([Num (\<bar>0 + 1 / 4 / sqrt 252 * 1 + 1 - 1\<bar> / 1), Num (\<bar>0 + 1 / 4 / sqrt 252 * 1 + 1 - 1\<bar> / 1),
           Num (\<bar>0 + 1 / 4 / sqrt 252 * 1 + 1 - 1\<bar> / 1), Num (\<bar>0 + 1 / 4 / sqrt 252 * 1 + 1 - 1\<bar> / 1),
           Num (\<bar>0 + 1 / 4 / sqrt 252 * 1 + 1 - 1\<bar> / 1)], sconst 1) \<and>
   \<bar>0 + 1 / 4 / sqrt 252 * 1 + 1 - 1\<bar> / 1 \<noteq> (0::real) \<and>
   five_prices (1 / 4) (10 ^ 17) 1 (sconst 1) = Inl ValueError"
proof (intro conjI)
  show "five_prices (- 1 / 5) 1 1 (sconst 0) = Inl ValueError"
    unfolding five_prices_def Let_def day_count_1 sum.case
    by (simp add: random_normal2_def eval_nat_numeral)
  show "285942833483841 / 2 ^ 56 * (252::real) < 1" by simp
  show "five_prices (1 / 4) (285942833483841 / 2 ^ 56) 1 (sconst 1) =
     Inr ([Num (\<bar>0 + 1 / 4 / sqrt 252 * 1 + 1 - 1\<bar> / 1), Num (\<bar>0 + 1 / 4 / sqrt 252 * 1 + 1 - 1\<bar> / 1),
           Num (\<bar>0 + 1 / 4 / sqrt 252 * 1 + 1 - 1\<bar> / 1), Num (\<bar>0 + 1 / 4 / sqrt 252 * 1 + 1 - 1\<bar> / 1),
           Num (\<bar>0 + 1 / 4 / sqrt 252 * 1 + 1 - 1\<bar> / 1)], sconst 1)"
    unfolding five_prices_def Let_def day_count_float_1_252 sum.case
    by (simp add: random_normal2_def array_too_big_def batch_price_def prod_axis0_def
        add_scalar_def column_def eval_nat_numeral sdrop_sconst)
  show "\<bar>0 + 1 / 4 / sqrt 252 * 1 + 1 - 1\<bar> / 1 \<noteq> (0::real)" by simp
  show "five_prices (1 / 4) (10 ^ 17) 1 (sconst 1) = Inl ValueError"
    unfolding five_prices_def Let_def day_count_1e17 sum.case
    by (simp add: random_normal2_def array_too_big_def eval_nat_numeral)
qed

section \<open>Signs of the results\<close>

lemma five_loop_no_paths:
  "0 \<le> dv \<Longrightarrow> 0 \<le> nd \<Longrightarrow> \<not> array_too_big [nd, 0] \<Longrightarrow>
   five_loop k dv nd 0 res g = Inr (res @ replicate k NaN, g)"
proof (induction k arbitrary: res g)
  case 0
  show ?case by simp
next
  case (Suc k)
  then show ?case
    by (simp add: random_normal2_def batch_price_def replicate_app_Cons_same)
qed

lemma five_loop_error:
  "dv < 0 \<or> nd < 0 \<or> m < 0 \<Longrightarrow> five_loop (Suc k) dv nd m res g = Inl ValueError"
  by (auto simp add: random_normal2_def)

lemma batch_price_nonneg: "0 < m \<Longrightarrow> np_nonneg (batch_price data m)"
proof -
  assume m: "0 < m"
  have "0 \<le> sum_list (map (\<lambda>p. \<bar>p - 1\<bar>) (prod_axis0 (add_scalar data 1)))"
    by (rule sum_list_nonneg) auto
  with m show ?thesis by (simp add: batch_price_def Let_def)
qed

lemma five_loop_nonneg:
  "five_loop k dv nd m res g = Inr (ps, g') \<Longrightarrow> m \<noteq> 0 \<Longrightarrow>
   list_all np_nonneg res \<Longrightarrow> list_all np_nonneg ps"
proof (induction k arbitrary: res g)
  case 0
  then show ?case by simp
next
  case (Suc k)
  from Suc.prems(1) obtain data g1 where
    draw: "random_normal2 0 dv (nd, m) g = Inr (data, g1)" and
    rest: "five_loop k dv nd m (res @ [batch_price data m]) g1 = Inr (ps, g')"
    by (auto split: sum.splits)
  from draw have "0 \<le> m" by (auto simp add: random_normal2_def split: if_splits)
  with Suc.prems(2) have "0 < m" by simp
  then have "list_all np_nonneg (res @ [batch_price data m])"
    using Suc.prems(3) by (simp add: batch_price_nonneg)
  from Suc.IH [OF rest Suc.prems(2) this] show ?case .
qed

text \<open>
  C10, as amended. Whatever the input and the realisation of the draws: a value that
  \<open>straddle_pricer_mc\<close> returns is non-negative; the straddle return that
  \<open>simulate_asset_path\<close> returns is non-negative; and every element of a list that
  \<open>five_prices\<close> returns is non-negative when \<open>mc_paths\<close> is not 0.
\<close>

theorem estimates_nonneg:
  "(straddle_pricer_mc an_vol time mc_paths g = Inr (v, g1) \<longrightarrow> 0 \<le> v) \<and>
   (five_prices an_vol time mc_paths g = Inr (ps, g2) \<and> mc_paths \<noteq> 0 \<longrightarrow> list_all np_nonneg ps) \<and>
   (simulate_asset_path an_vol time g = Inr ((df, sr), g3) \<longrightarrow> 0 \<le> sr)"
proof (intro conjI impI)
  assume "straddle_pricer_mc an_vol time mc_paths g = Inr (v, g1)"
  then obtain n_days s where
    loop: "mc_loop (nat mc_paths) (an_vol / sqrt 252) n_days 0 g = Inr (s, g1)" and
    v: "v = s / real_of_int mc_paths" and nz: "mc_paths \<noteq> 0"
    by (auto simp add: straddle_pricer_mc_def Let_def split: sum.splits if_splits)
  from mc_loop_lower [OF loop] have s: "0 \<le> s" .
  show "0 \<le> v"
  proof (cases "0 < mc_paths")
    case True
    with s v show ?thesis by simp
  next
    case False
    then have "nat mc_paths = 0" by simp
    with loop have "s = 0" by simp
    with v show ?thesis by simp
  qed
next
  assume "five_prices an_vol time mc_paths g = Inr (ps, g2) \<and> mc_paths \<noteq> 0"
  then show "list_all np_nonneg ps"
    unfolding five_prices_def Let_def by (auto split: sum.splits dest: five_loop_nonneg)
next
  assume "simulate_asset_path an_vol time g = Inr ((df, sr), g3)"
  then show "0 \<le> sr"
    by (auto simp add: simulate_asset_path_def Let_def path_straddle_return_nonneg split: sum.splits)
qed

text \<open>
  C10 as stated, for every input, fails at \<open>mc_paths = 0\<close>: \<open>five_prices\<close> returns five
  \<open>nan\<close>, and \<open>nan\<close> is not non-negative.
\<close>

theorem five_prices_no_paths_nan:
  "five_prices (1 / 5) 1 0 (sconst 1) = Inr ([NaN, NaN, NaN, NaN, NaN], sconst 1) \<and>
   \<not> np_nonneg NaN"
proof -
  have "five_loop 5 (1 / 5 / sqrt 252) 252 0 [] (sconst 1) = Inr ([] @ replicate 5 NaN, sconst 1)"
    by (rule five_loop_no_paths) (simp_all add: array_too_big_def)
  moreover have "replicate 5 NaN = [NaN, NaN, NaN, NaN, NaN]"
    by (simp add: eval_nat_numeral)
  ultimately show ?thesis
    unfolding five_prices_def Let_def day_count_1 sum.case by simp
qed

lemma day_count_1_252: "day_count (1 / 252) = Inr 1"
proof -
  have b: "b64 (1 / 252 * 252) = 1"
    using b64_eval [of 1 52] by (simp add: round_half_even_def)
  show ?thesis unfolding day_count_def Let_def b by (simp add: py_int_def)
qed

text \<open>
  One path of one day, from the variates 2, 3, 3, ...
\<close>

theorem estimates_nonneg_witness:
  "straddle_pricer_mc (1 / 5) (1 / 252) 1 (2 ## sconst 3) =
     Inr (\<bar>1 + 1 / 5 / sqrt 252 * 2 - 1\<bar>, sconst 3) \<and>
   0 \<le> \<bar>1 + 1 / 5 / sqrt 252 * 2 - 1\<bar> \<and>
   five_prices (1 / 5) (1 / 252) 1 (2 ## sconst 3) =
     Inr ([Num \<bar>1 + 1 / 5 / sqrt 252 * 2 - 1\<bar>, Num \<bar>1 + 1 / 5 / sqrt 252 * 3 - 1\<bar>,
           Num \<bar>1 + 1 / 5 / sqrt 252 * 3 - 1\<bar>, Num \<bar>1 + 1 / 5 / sqrt 252 * 3 - 1\<bar>,
           Num \<bar>1 + 1 / 5 / sqrt 252 * 3 - 1\<bar>], sconst 3) \<and>
   (1::int) \<noteq> 0 \<and>
   list_all np_nonneg
     [Num \<bar>1 + 1 / 5 / sqrt 252 * 2 - 1\<bar>, Num \<bar>1 + 1 / 5 / sqrt 252 * 3 - 1\<bar>,
      Num \<bar>1 + 1 / 5 / sqrt 252 * 3 - 1\<bar>, Num \<bar>1 + 1 / 5 / sqrt 252 * 3 - 1\<bar>,
      Num \<bar>1 + 1 / 5 / sqrt 252 * 3 - 1\<bar>] \<and>
   simulate_asset_path (1 / 5) (1 / 252) (2 ## sconst 3) =
     Inr ((\<lparr>df_return = [1 / 5 / sqrt 252 * 2 + 1], df_price = [1 / 5 / sqrt 252 * 2 + 1]\<rparr>,
           \<bar>1 + 1 / 5 / sqrt 252 * 2 - 1\<bar>), sconst 3)"
proof -
  have mc: "straddle_pricer_mc (1 / 5) (1 / 252) 1 (2 ## sconst 3) =
      Inr (\<bar>1 + 1 / 5 / sqrt 252 * 2 - 1\<bar>, sconst 3)"
    unfolding straddle_pricer_mc_def Let_def day_count_1_252 sum.case
    by (simp add: random_normal_def array_too_big_def path_straddle_return_def)
  have five: "five_prices (1 / 5) (1 / 252) 1 (2 ## sconst 3) =
      Inr ([Num \<bar>1 + 1 / 5 / sqrt 252 * 2 - 1\<bar>, Num \<bar>1 + 1 / 5 / sqrt 252 * 3 - 1\<bar>,
            Num \<bar>1 + 1 / 5 / sqrt 252 * 3 - 1\<bar>, Num \<bar>1 + 1 / 5 / sqrt 252 * 3 - 1\<bar>,
            Num \<bar>1 + 1 / 5 / sqrt 252 * 3 - 1\<bar>], sconst 3)"
    unfolding five_prices_def Let_def day_count_1_252 sum.case
    by (simp add: random_normal2_def array_too_big_def batch_price_def prod_axis0_def
        add_scalar_def column_def eval_nat_numeral sdrop_sconst)
  have sim: "simulate_asset_path (1 / 5) (1 / 252) (2 ## sconst 3) =
      Inr ((\<lparr>df_return = [1 / 5 / sqrt 252 * 2 + 1], df_price = [1 / 5 / sqrt 252 * 2 + 1]\<rparr>,
            \<bar>1 + 1 / 5 / sqrt 252 * 2 - 1\<bar>), sconst 3)"
    unfolding simulate_asset_path_def Let_def day_count_1_252 sum.case
    by (simp add: random_normal_def array_too_big_def path_straddle_return_def cumprod_def)
  from estimates_nonneg [of "1 / 5" "1 / 252" 1 "2 ## sconst 3", unfolded mc five sim]
  show ?thesis unfolding mc five sim by simp
qed

section \<open>Invalid parameters\<close>

lemma day_count_0: "day_count 0 = Inr 0"
  unfolding day_count_def Let_def by (simp add: b64_zero py_int_def)

lemma straddle_pricer_mc_zero_time:
  assumes "0 < an_vol" and "1 \<le> mc_paths"
  shows "straddle_pricer_mc an_vol 0 mc_paths g = Inr (0, g)"
proof -
  have days: "day_count 0 = Inr (int 0)" by (simp add: day_count_0)
  have dv: "0 \<le> an_vol / sqrt 252" using assms(1) by simp
  have fits: "\<not> array_too_big [int 0]" by (simp add: array_too_big_single)
  have loop: "mc_loop (nat mc_paths) (an_vol / sqrt 252) (int 0) 0 g =
      Inr (0 + sum_list (map (\<lambda>i. path_straddle_return (trial_returns (an_vol / sqrt 252) 0 g i))
             [0..<nat mc_paths]), sdrop (nat mc_paths * 0) g)"
    by (rule mc_loop_ok [OF dv fits])
  have "mc_paths \<noteq> 0" using assms(2) by simp
  then show ?thesis
    unfolding straddle_pricer_mc_def Let_def days sum.case loop
    by (simp add: trial_returns_def path_straddle_return_def)
qed

text \<open>
  C6, as amended. No operation checks its parameters, and the errors that occur are
  numpy's and Python's own. \<open>straddle_price\<close> raises nothing: it is \<open>nan\<close> for a negative
  time and the closed form otherwise, whatever the volatility. When the day count \<open>n\<close>
  can be taken (the product \<open>time * 252\<close> is finite): \<open>straddle_pricer_mc\<close> raises
  \<^verbatim>\<open>ZeroDivisionError\<close> for \<open>mc_paths = 0\<close>, and for \<open>mc_paths \<ge> 1\<close> it raises
  \<^verbatim>\<open>ValueError\<close> when the volatility or the day count is negative; \<open>five_prices\<close>
  raises \<^verbatim>\<open>ValueError\<close> when the volatility, the day count or \<open>mc_paths\<close> is negative;
  \<open>simulate_asset_path\<close> raises \<^verbatim>\<open>ValueError\<close> when the volatility or the day count
  is negative. A zero time is no error: with a positive volatility and
  \<open>mc_paths \<ge> 1\<close>, \<open>straddle_pricer_mc\<close> returns 0 and leaves the generator as it was.
\<close>

theorem no_parameter_validation:
  "(time < 0 \<longrightarrow> straddle_price an_vol time = NaN) \<and>
   (0 \<le> time \<longrightarrow> straddle_price an_vol time = Num ((2 / sqrt (2 * pi)) * an_vol * sqrt time)) \<and>
   (day_count time = Inr n \<longrightarrow> straddle_pricer_mc an_vol time 0 g = Inl ZeroDivisionError) \<and>
   (day_count time = Inr n \<and> 1 \<le> mc_paths \<and> (an_vol < 0 \<or> n < 0) \<longrightarrow>
      straddle_pricer_mc an_vol time mc_paths g = Inl ValueError) \<and>
   (day_count time = Inr n \<and> (an_vol < 0 \<or> n < 0 \<or> mc_paths < 0) \<longrightarrow>
      five_prices an_vol time mc_paths g = Inl ValueError) \<and>
   (day_count time = Inr n \<and> (an_vol < 0 \<or> n < 0) \<longrightarrow>
      simulate_asset_path an_vol time g = Inl ValueError) \<and>
   (0 < an_vol \<and> 1 \<le> mc_paths \<longrightarrow> straddle_pricer_mc an_vol 0 mc_paths g = Inr (0, g))"
proof (intro conjI impI)
  show "straddle_price an_vol time = NaN" if "time < 0"
    using that by (simp add: straddle_price_def np_sqrt_def)
  show "straddle_price an_vol time = Num ((2 / sqrt (2 * pi)) * an_vol * sqrt time)" if "0 \<le> time"
    using that by (rule straddle_price_Num)
  show "straddle_pricer_mc an_vol time 0 g = Inl ZeroDivisionError" if d: "day_count time = Inr n"
    unfolding straddle_pricer_mc_def Let_def d sum.case by simp
  show "straddle_pricer_mc an_vol time mc_paths g = Inl ValueError"
    if h: "day_count time = Inr n \<and> 1 \<le> mc_paths \<and> (an_vol < 0 \<or> n < 0)"
  proof -
    from h have d: "day_count time = Inr n" by simp
    from h obtain k where k: "nat mc_paths = Suc k" by (cases "nat mc_paths") simp_all
    from h have "an_vol / sqrt 252 < 0 \<or> n < 0"
      by (auto simp add: divide_less_0_iff)
    then have loop: "mc_loop (Suc k) (an_vol / sqrt 252) n 0 g = Inl ValueError"
      by (rule mc_loop_error)
    show ?thesis
      unfolding straddle_pricer_mc_def Let_def d sum.case k loop by simp
  qed
  show "five_prices an_vol time mc_paths g = Inl ValueError"
    if h: "day_count time = Inr n \<and> (an_vol < 0 \<or> n < 0 \<or> mc_paths < 0)"
  proof -
    from h have d: "day_count time = Inr n" by simp
    from h have "an_vol / sqrt 252 < 0 \<or> n < 0 \<or> mc_paths < 0"
      by (auto simp add: divide_less_0_iff)
    then have "five_loop (Suc 4) (an_vol / sqrt 252) n mc_paths [] g = Inl ValueError"
      by (rule five_loop_error)
    then show ?thesis
      unfolding five_prices_def Let_def d sum.case by (simp del: five_loop.simps)
  qed
  show "simulate_asset_path an_vol time g = Inl ValueError"
    if h: "day_count time = Inr n \<and> (an_vol < 0 \<or> n < 0)"
    using h simulate_asset_path_error [of time n an_vol g] by simp
  show "straddle_pricer_mc an_vol 0 mc_paths g = Inr (0, g)" if "0 < an_vol \<and> 1 \<le> mc_paths"
    using that straddle_pricer_mc_zero_time [of an_vol mc_paths g] by simp
qed

lemma day_count_neg_1: "day_count (- 1) = Inr (- 252)"
proof -
  have b: "b64 (- 1 * 252) = - 252"
    using b64_eval [of "- 252" 45] by (simp add: round_half_even_def)
  show ?thesis unfolding day_count_def Let_def b by (simp add: py_int_def)
qed

text \<open>
  A negative volatility, a negative time, a negative and a zero \<open>mc_paths\<close>, and a zero
  time.
\<close>

theorem no_parameter_validation_witness:
  "((0::real) \<le> 1 \<and> straddle_price (- 1 / 5) 1 = Num ((2 / sqrt (2 * pi)) * (- 1 / 5) * sqrt 1)) \<and>
   ((day_count 1 = Inr 252 \<and> (1::int) \<le> 1 \<and> (- 1 / 5 :: real) < 0) \<and>
      straddle_pricer_mc (- 1 / 5) 1 1 (sconst 1) = Inl ValueError \<and>
      five_prices (- 1 / 5) 1 1 (sconst 1) = Inl ValueError \<and>
      simulate_asset_path (- 1 / 5) 1 (sconst 1) = Inl ValueError) \<and>
   ((- 1 :: real) < 0 \<and> straddle_price (1 / 5) (- 1) = NaN) \<and>
   ((day_count (- 1) = Inr (- 252) \<and> (1::int) \<le> 1 \<and> (- 252 :: int) < 0) \<and>
      straddle_pricer_mc (1 / 5) (- 1) 1 (sconst 1) = Inl ValueError \<and>
      five_prices (1 / 5) (- 1) 1 (sconst 1) = Inl ValueError \<and>
      simulate_asset_path (1 / 5) (- 1) (sconst 1) = Inl ValueError) \<and>
   (day_count 1 = Inr 252 \<and> ((- 1 :: int) < 0) \<and>
      five_prices (1 / 5) 1 (- 1) (sconst 1) = Inl ValueError) \<and>
   (day_count 1 = Inr 252 \<and> straddle_pricer_mc (1 / 5) 1 0 (sconst 1) = Inl ZeroDivisionError) \<and>
   (((0::real) < 1 / 5 \<and> (1::int) \<le> 1) \<and>
      straddle_pricer_mc (1 / 5) 0 1 (sconst 1) = Inr (0, sconst 1))"
  using
    no_parameter_validation [where an_vol = "- 1 / 5" and time = 1 and mc_paths = 1
      and n = 252 and g = "sconst 1"]
    no_parameter_validation [where an_vol = "1 / 5" and time = "- 1" and mc_paths = 1
      and n = "- 252" and g = "sconst 1"]
    no_parameter_validation [where an_vol = "1 / 5" and time = 1 and mc_paths = "- 1"
      and n = 252 and g = "sconst 1"]
    no_parameter_validation [where an_vol = "1 / 5" and time = 1 and mc_paths = 1
      and n = 252 and g = "sconst 1"]
  by (simp add: day_count_1 day_count_neg_1)

text \<open>
  C6 as stated fails: a negative volatility gives \<open>straddle_price\<close> a (negative)
  number, and a zero time horizon, with its zero day count, gives \<open>straddle_pricer_mc\<close>
  the value 0. Neither call raises.
\<close>

theorem negative_volatility_accepted:
  "straddle_price (- 1 / 5) 1 = Num (- (2 / sqrt (2 * pi)) / 5) \<and>
   straddle_pricer_mc (1 / 5) 0 1 (sconst 1) = Inr (0, sconst 1)"
proof -
  have "straddle_pricer_mc (1 / 5) 0 1 (sconst 1) = Inr (0, sconst 1)"
    unfolding straddle_pricer_mc_def Let_def day_count_0 sum.case
    by (simp add: random_normal_def array_too_big_def path_straddle_return_def)
  then show ?thesis by (simp add: straddle_price_Num)
qed

section \<open>The average of a fixed return\<close>




































end
